theory Spec2Isabelle
  imports Complex_Main "HOL-Library.AList"
begin

section \<open>JavaScript primitives used by the panel\<close>

text \<open>
  A JavaScript string is modelled as a \<open>string\<close> whose characters are the code units
  0..255. A number is an IEEE double: \<open>NaN\<close>, the two infinities, or a finite value,
  kept as the rational it is equal to (the sign of zero is not kept; nothing here
  can observe it).
\<close>

datatype jsnum = NaN | Fin rat | PosInf | NegInf

text \<open>White space and line terminators that \<open>String.prototype.trim\<close> and the
  string-to-number conversion strip (TAB, LF, VT, FF, CR, SP, NBSP).\<close>

definition js_ws :: "char \<Rightarrow> bool" where
  "js_ws c = ((of_char c :: nat) \<in> {9, 10, 11, 12, 13, 32, 160})"

definition js_trim :: "string \<Rightarrow> string" where
  "js_trim s = rev (dropWhile js_ws (rev (dropWhile js_ws s)))"

definition is_digit :: "char \<Rightarrow> bool" where
  "is_digit c = (48 \<le> (of_char c :: nat) \<and> (of_char c :: nat) \<le> 57)"

text \<open>Value of a digit in a base up to 16 (\<open>None\<close> when the character is no digit
  of that base).\<close>

definition digit_in :: "nat \<Rightarrow> char \<Rightarrow> nat option" where
  "digit_in b c =
     (let n = (of_char c :: nat);
          v = (if 48 \<le> n \<and> n \<le> 57 then Some (n - 48)
               else if 97 \<le> n \<and> n \<le> 102 then Some (n - 87)
               else if 65 \<le> n \<and> n \<le> 70 then Some (n - 55)
               else None)
      in case v of None \<Rightarrow> None | Some d \<Rightarrow> if d < b then Some d else None)"

fun digits_in :: "nat \<Rightarrow> nat \<Rightarrow> string \<Rightarrow> nat option" where
  "digits_in b acc [] = Some acc"
| "digits_in b acc (c # cs) =
     (case digit_in b c of None \<Rightarrow> None | Some d \<Rightarrow> digits_in b (b * acc + d) cs)"

definition digits_val :: "string \<Rightarrow> nat" where
  "digits_val s = foldl (\<lambda>a c. 10 * a + ((of_char c :: nat) - 48)) 0 s"

definition pow10 :: "int \<Rightarrow> rat" where
  "pow10 e = (if 0 \<le> e then 10 ^ nat e else 1 / 10 ^ nat (- e))"

text \<open>\<open>ExponentPart\<close> of the numeric-string grammar, applied to what follows the
  mantissa: nothing, or \<open>e\<close>/\<open>E\<close>, an optional sign and at least one digit.\<close>

definition parse_exponent :: "string \<Rightarrow> int option" where
  "parse_exponent s =
     (case s of
        [] \<Rightarrow> Some 0
      | c # r \<Rightarrow>
          if c = CHR ''e'' \<or> c = CHR ''E'' then
            (let neg = (case r of [] \<Rightarrow> False | d # _ \<Rightarrow> d = CHR ''-'');
                 r' = (case r of [] \<Rightarrow> []
                        | d # t \<Rightarrow> if d = CHR ''-'' \<or> d = CHR ''+'' then t else r)
             in if r' \<noteq> [] \<and> list_all is_digit r'
                then Some (if neg then - int (digits_val r') else int (digits_val r'))
                else None)
          else None)"

text \<open>The Number value of a mathematical value: the nearest double, ties to the even
  significand; below \<open>2^-1022\<close> the doubles are \<open>2^-1074\<close> apart, and a value that
  rounds to \<open>2^1024\<close> or more is an infinity. \<open>bit_length n\<close> is the number of
  binary digits of \<open>n\<close>, \<open>floor_log2 q\<close> the integer part of the binary logarithm
  of a positive \<open>q\<close>.\<close>

fun bit_length :: "nat \<Rightarrow> nat" where
  "bit_length n = (if n = 0 then 0 else Suc (bit_length (n div 2)))"

definition pow2 :: "int \<Rightarrow> rat" where
  "pow2 e = (if 0 \<le> e then 2 ^ nat e else 1 / 2 ^ nat (- e))"

definition floor_log2 :: "rat \<Rightarrow> int" where
  "floor_log2 q =
     (let k = int (bit_length (nat (fst (quotient_of q))))
              - int (bit_length (nat (snd (quotient_of q))))
      in if pow2 k \<le> q then k else k - 1)"

definition round_half_even :: "rat \<Rightarrow> int" where
  "round_half_even x =
     (let f = \<lfloor>x\<rfloor>;
          r = x - of_int f
      in if r < 1 / 2 then f
         else if 1 / 2 < r then f + 1
         else if even f then f else f + 1)"

definition to_double :: "rat \<Rightarrow> jsnum" where
  "to_double q =
     (if q = 0 then Fin 0
      else (let e = floor_log2 \<bar>q\<bar>;
                s = (if e < - 1022 then - 1074 else e - 52);
                r = of_int (round_half_even (\<bar>q\<bar> / pow2 s)) * pow2 s
            in if pow2 1024 \<le> r then (if q < 0 then NegInf else PosInf)
               else Fin (if q < 0 then - r else r)))"

text \<open>\<open>StrUnsignedDecimalLiteral\<close> without \<open>Infinity\<close>: digits, an optional
  fraction, an optional exponent, with at least one digit before or after the dot.\<close>

definition unsigned_decimal :: "string \<Rightarrow> rat option" where
  "unsigned_decimal s =
     (let ip = takeWhile is_digit s;
          r1 = dropWhile is_digit s;
          dot = (case r1 of [] \<Rightarrow> False | c # _ \<Rightarrow> c = CHR ''.'');
          fp = (if dot then takeWhile is_digit (tl r1) else []);
          r2 = (if dot then dropWhile is_digit (tl r1) else r1)
      in if ip = [] \<and> fp = [] then None
         else case parse_exponent r2 of
                None \<Rightarrow> None
              | Some e \<Rightarrow>
                  Some (of_nat (digits_val (ip @ fp)) / 10 ^ length fp * pow10 e))"

definition str_decimal :: "string \<Rightarrow> jsnum" where
  "str_decimal s =
     (let neg = (case s of [] \<Rightarrow> False | c # _ \<Rightarrow> c = CHR ''-'');
          u = (case s of [] \<Rightarrow> []
                | c # t \<Rightarrow> if c = CHR ''-'' \<or> c = CHR ''+'' then t else s)
      in if u = ''Infinity'' then (if neg then NegInf else PosInf)
         else case unsigned_decimal u of
                None \<Rightarrow> NaN
              | Some q \<Rightarrow> to_double (if neg then - q else q))"

definition non_decimal_base :: "string \<Rightarrow> nat option" where
  "non_decimal_base s =
     (case s of
        c # d # _ \<Rightarrow>
          if c = CHR ''0'' then
            (if d = CHR ''x'' \<or> d = CHR ''X'' then Some 16
             else if d = CHR ''o'' \<or> d = CHR ''O'' then Some 8
             else if d = CHR ''b'' \<or> d = CHR ''B'' then Some 2
             else None)
          else None
      | _ \<Rightarrow> None)"

text \<open>\<open>Number(s)\<close> for a string \<open>s\<close>: surrounding white space is dropped, the empty
  string is 0, then a decimal literal (signed, possibly \<open>Infinity\<close>, fraction,
  exponent) or an unsigned binary, octal or hexadecimal integer literal, whose value
  is rounded to a double; anything else is \<open>NaN\<close>. (For a decimal literal of more
  than 20 significant digits the language lets an engine round from the first 20; the
  model rounds the exact value, as the engines in use do.)\<close>

definition js_Number :: "string \<Rightarrow> jsnum" where
  "js_Number s =
     (let t = js_trim s
      in if t = [] then Fin 0
         else case non_decimal_base t of
                Some b \<Rightarrow>
                  (let ds = drop 2 t
                   in if ds = [] then NaN
                      else case digits_in b 0 ds of
                             None \<Rightarrow> NaN
                           | Some n \<Rightarrow> to_double (of_nat n))
              | None \<Rightarrow> str_decimal t)"

definition js_isNaN :: "jsnum \<Rightarrow> bool" where
  "js_isNaN x = (x = NaN)"

text \<open>\<open>Math.max(1, x)\<close>.\<close>

fun js_max1 :: "jsnum \<Rightarrow> jsnum" where
  "js_max1 NaN = NaN"
| "js_max1 (Fin q) = Fin (max 1 q)"
| "js_max1 PosInf = PosInf"
| "js_max1 NegInf = Fin 1"

fun js_neg :: "jsnum \<Rightarrow> jsnum" where
  "js_neg NaN = NaN"
| "js_neg (Fin q) = Fin (- q)"
| "js_neg PosInf = NegInf"
| "js_neg NegInf = PosInf"

datatype intinf = MinusInf | IntVal int | PlusInf

text \<open>\<open>ToIntegerOrInfinity\<close>: \<open>NaN\<close> is 0, a finite number is truncated towards
  zero.\<close>

fun ToIntegerOrInfinity :: "jsnum \<Rightarrow> intinf" where
  "ToIntegerOrInfinity NaN = IntVal 0"
| "ToIntegerOrInfinity (Fin q) = IntVal (if 0 \<le> q then \<lfloor>q\<rfloor> else \<lceil>q\<rceil>)"
| "ToIntegerOrInfinity PosInf = PlusInf"
| "ToIntegerOrInfinity NegInf = MinusInf"

text \<open>\<open>Array.prototype.slice(start)\<close> with the end left out.\<close>

fun js_slice :: "intinf \<Rightarrow> 'a list \<Rightarrow> 'a list" where
  "js_slice MinusInf xs = xs"
| "js_slice (IntVal r) xs =
     (if r < 0 then drop (nat (max (int (length xs) + r) 0)) xs
      else drop (nat (min r (int (length xs)))) xs)"
| "js_slice PlusInf xs = []"

text \<open>The last \<open>n\<close> elements of a list (all of it when it is shorter).\<close>

definition last_n :: "nat \<Rightarrow> 'a list \<Rightarrow> 'a list" where
  "last_n n xs = drop (length xs - n) xs"

text \<open>\<open>s.startsWith(p)\<close>, \<open>s.split(c)\<close> for a one-character separator and
  \<open>parts.join(c)\<close>.\<close>

definition js_startsWith :: "string \<Rightarrow> string \<Rightarrow> bool" where
  "js_startsWith s p = (take (length p) s = p)"

fun js_split :: "char \<Rightarrow> string \<Rightarrow> string list" where
  "js_split c [] = [[]]"
| "js_split c (x # xs) =
     (if x = c then [] # js_split c xs
      else case js_split c xs of
             [] \<Rightarrow> [[x]]
           | w # ws \<Rightarrow> (x # w) # ws)"

fun js_join :: "char \<Rightarrow> string list \<Rightarrow> string" where
  "js_join c [] = []"
| "js_join c [w] = w"
| "js_join c (w # v # ws) = w @ c # js_join c (v # ws)"

text \<open>\<open>s.replace(pat, repl)\<close> with a string pattern: the first occurrence of
  \<open>pat\<close> is replaced, and in \<open>repl\<close> the patterns \<open>$$\<close>, \<open>$&\<close>, \<open>$`\<close> and
  \<open>$'\<close> stand for a dollar sign, the match, the text before it and the text after
  it. \<open>find_sub\<close> returns the text before and after the first occurrence.\<close>

fun find_sub :: "string \<Rightarrow> string \<Rightarrow> (string \<times> string) option" where
  "find_sub pat [] = (if pat = [] then Some ([], []) else None)"
| "find_sub pat (c # cs) =
     (if take (length pat) (c # cs) = pat then Some ([], drop (length pat) (c # cs))
      else case find_sub pat cs of
             None \<Rightarrow> None
           | Some (b, a) \<Rightarrow> Some (c # b, a))"

fun get_substitution :: "string \<Rightarrow> string \<Rightarrow> string \<Rightarrow> string \<Rightarrow> string" where
  "get_substitution m b a [] = []"
| "get_substitution m b a [c] = [c]"
| "get_substitution m b a (c # d # r) =
     (if c = CHR ''$'' \<and> d = CHR ''$'' then CHR ''$'' # get_substitution m b a r
      else if c = CHR ''$'' \<and> d = CHR ''&'' then m @ get_substitution m b a r
      else if c = CHR ''$'' \<and> d = CHR 0x60 then b @ get_substitution m b a r
      else if c = CHR ''$'' \<and> d = CHR 0x27 then a @ get_substitution m b a r
      else c # get_substitution m b a (d # r))"

definition js_replace :: "string \<Rightarrow> string \<Rightarrow> string \<Rightarrow> string" where
  "js_replace s pat repl =
     (case find_sub pat s of
        None \<Rightarrow> s
      | Some (b, a) \<Rightarrow> b @ get_substitution pat b a repl @ a)"

section \<open>The mock API: data (mock-data.ts)\<close>

text \<open>Source: \<^verbatim>\<open>src/unnamed/part_001\<close>, lines 16 to 109 (the module
  \<^verbatim>\<open>mock-data\<close> that the interceptor imports).\<close>


datatype ServerStatus = offline | online | restarting

datatype ActionName = start | stop | restart

record ServerState =
  status :: ServerStatus
  lastAction :: "ActionName option"
  lastActionAt :: "string option"

text \<open>\<open>MockServer\<close>; the fields carry the prefix \<open>srv_\<close> (\<open>id\<close> is a constant of
  HOL).\<close>

record MockServer =
  srv_id :: string
  srv_name :: string
  srv_path :: string
  srv_port :: nat
  srv_description :: "string option"

definition mockServers :: "MockServer list" where
  "mockServers =
     [\<lparr>srv_id = ''nau-survival'', srv_name = ''Nau Survival'',
       srv_path = ''D:/Minecraft/servers/nau-survival'', srv_port = 25565,
       srv_description = Some ''Vanilla survival world focused on long-term progression.''\<rparr>,
      \<lparr>srv_id = ''nau-creative'', srv_name = ''Nau Creative'',
       srv_path = ''D:/Minecraft/servers/nau-creative'', srv_port = 25566,
       srv_description = Some ''Creative sandbox for builds, schematics, and experiments.''\<rparr>,
      \<lparr>srv_id = ''nau-skyblock'', srv_name = ''Nau Skyblock'',
       srv_path = ''D:/Minecraft/servers/nau-skyblock'', srv_port = 25567,
       srv_description = Some ''Skyblock challenge with economy and island progression.''\<rparr>,
      \<lparr>srv_id = ''nau-events'', srv_name = ''Nau Events'',
       srv_path = ''D:/Minecraft/servers/nau-events'', srv_port = 25568,
       srv_description = Some ''Event server for mini-games and seasonal activities.''\<rparr>]"

definition mockStates :: "(string \<times> ServerState) list" where
  "mockStates =
     [(''nau-survival'', \<lparr>status = online, lastAction = Some start,
         lastActionAt = Some ''2026-02-08T07:40:00.000Z''\<rparr>),
      (''nau-creative'', \<lparr>status = offline, lastAction = Some stop,
         lastActionAt = Some ''2026-02-08T07:10:00.000Z''\<rparr>),
      (''nau-skyblock'', \<lparr>status = restarting, lastAction = Some restart,
         lastActionAt = Some ''2026-02-08T07:55:00.000Z''\<rparr>),
      (''nau-events'', \<lparr>status = offline, lastAction = None, lastActionAt = None\<rparr>)]"

definition mockLogs :: "(string \<times> string list) list" where
  \<open>mockLogs =
     [(''nau-survival'',
        [''[INFO] Starting minecraft server version 1.20.4'',
         ''[INFO] Loading properties'',
         ''[INFO] Default game type: SURVIVAL'',
         ''[INFO] Done (4.21s)! For help, type "help"'']),
      (''nau-creative'',
        [''[INFO] Starting minecraft server version 1.20.4'',
         ''[INFO] Default game type: CREATIVE'',
         ''[INFO] Preparing spawn area: 78%'',
         ''[INFO] Done (3.87s)! For help, type "help"'']),
      (''nau-skyblock'',
        [''[INFO] Starting minecraft server version 1.20.4'',
         ''[INFO] Loading skyblock islands'',
         ''[WARN] Island queue backlog detected'',
         ''[INFO] Done (5.02s)! For help, type "help"'']),
      (''nau-events'',
        [''[INFO] Starting minecraft server version 1.20.4'',
         ''[INFO] Loading mini-games'',
         ''[INFO] Arena 2 ready'',
         ''[INFO] Done (4.66s)! For help, type "help"''])]\<close>

section \<open>The mock API: state and helpers (mock-api.interceptor.ts)\<close>

text \<open>Source: \<^verbatim>\<open>src/unnamed/part_001\<close>, lines 110 to 401: the state and the
  helpers are lines 115 to 197, the interceptor itself lines 199 to 401.\<close>


text \<open>The entry kinds \<open>'file'\<close> and \<open>'dir'\<close>.\<close>

datatype EntryType = EFile | EDir

record FileEntry =
  fe_path :: string
  fe_type :: EntryType
  fe_content :: "string option"

text \<open>The module-level maps and flags. A JavaScript \<open>Map\<close> is an association list:
  \<open>get\<close> is \<open>map_of\<close>, and \<open>set\<close> is \<open>AList.update\<close>, which overwrites the value
  of a present key in place and puts a new key at the end.\<close>

record mock_store =
  serverStates :: "(string \<times> ServerState) list"
  serverLogs :: "(string \<times> string list) list"
  serverFiles :: "(string \<times> FileEntry list) list"
  statesSeeded :: bool
  logsSeeded :: bool

definition initial_store :: mock_store where
  "initial_store =
     \<lparr>serverStates = [], serverLogs = [], serverFiles = [],
      statesSeeded = False, logsSeeded = False\<rparr>"

definition defaultState :: ServerState where
  "defaultState = \<lparr>status = offline, lastAction = None, lastActionAt = None\<rparr>"

text \<open>\<open>getServerState\<close> returns the state stored for the id, creating the default
  entry on a miss. The source returns the stored object itself, which the lifecycle
  routes then mutate: the model returns the object's value at that moment and the
  routes write the new value back under the id. An id keeps its object for good (only
  the seeding and a miss store one), so the object of an id is named by the id.\<close>

definition getServerState :: "string \<Rightarrow> mock_store \<Rightarrow> ServerState \<times> mock_store" where
  "getServerState i st =
     (case map_of (serverStates st) i of
        Some existing \<Rightarrow> (existing, st)
      | None \<Rightarrow>
          (defaultState,
           st\<lparr>serverStates := AList.update i defaultState (serverStates st)\<rparr>))"

definition seedStates :: "mock_store \<Rightarrow> mock_store" where
  "seedStates st =
     (if statesSeeded st then st
      else st\<lparr>serverStates :=
                 foldl (\<lambda>m (i, s). AList.update i s m) (serverStates st) mockStates,
               statesSeeded := True\<rparr>)"

definition seedLogs :: "mock_store \<Rightarrow> mock_store" where
  "seedLogs st =
     (if logsSeeded st then st
      else st\<lparr>serverLogs :=
                 foldl (\<lambda>m (i, l). AList.update i l m) (serverLogs st) mockLogs,
               logsSeeded := True\<rparr>)"

definition seedEntries :: "FileEntry list" where
  "seedEntries =
     [\<lparr>fe_path = ''config'', fe_type = EDir, fe_content = None\<rparr>,
      \<lparr>fe_path = ''logs'', fe_type = EDir, fe_content = None\<rparr>,
      \<lparr>fe_path = ''world'', fe_type = EDir, fe_content = None\<rparr>,
      \<lparr>fe_path = ''config/server.properties'', fe_type = EFile,
       fe_content = Some (''motd=A Nau server'' @ [CHR 0x0A] @ ''max-players=20'')\<rparr>,
      \<lparr>fe_path = ''config/eula.txt'', fe_type = EFile, fe_content = Some ''eula=true''\<rparr>,
      \<lparr>fe_path = ''logs/latest.log'', fe_type = EFile,
       fe_content = Some (''[INFO] Server started'' @ [CHR 0x0A] @ ''[INFO] Done'')\<rparr>]"

definition seedFiles :: "mock_store \<Rightarrow> mock_store" where
  "seedFiles st =
     (if serverFiles st \<noteq> [] then st
      else st\<lparr>serverFiles :=
                 foldl (\<lambda>m server. AList.update (srv_id server) seedEntries m)
                   (serverFiles st) mockServers\<rparr>)"

definition normalizePath :: "string \<Rightarrow> string" where
  "normalizePath v =
     rev (dropWhile (\<lambda>c. c = CHR ''/'') (rev (dropWhile (\<lambda>c. c = CHR ''/'') v)))"

definition getParentPath :: "string \<Rightarrow> string" where
  "getParentPath v = js_join (CHR ''/'') (butlast (js_split (CHR ''/'') (normalizePath v)))"

definition getName :: "string \<Rightarrow> string" where
  "getName v =
     (case js_split (CHR ''/'') (normalizePath v) of
        [] \<Rightarrow> []
      | p # ps \<Rightarrow> last (p # ps))"

definition logsOf :: "mock_store \<Rightarrow> string \<Rightarrow> string list" where
  "logsOf st i = (case map_of (serverLogs st) i of None \<Rightarrow> [] | Some l \<Rightarrow> l)"

text \<open>\<open>appendLog\<close>: push the line, then cut the front down to 200 entries.\<close>

definition appendLog :: "string \<Rightarrow> string \<Rightarrow> mock_store \<Rightarrow> mock_store" where
  "appendLog i line st =
     (let logs = logsOf st i @ [line];
          logs' = (if length logs > 200 then drop (length logs - 200) logs else logs)
      in st\<lparr>serverLogs := AList.update i logs' (serverLogs st)\<rparr>)"

section \<open>The mock API: requests, responses and routes\<close>

text \<open>
  A request as the interceptor reads it. \<open>req_target\<close> is what the URL tests of the
  source decide: \<open>NonApi\<close> when the URL does not start with \<open>/api/\<close>, \<open>Health\<close> and
  \<open>ServerList\<close> when it is exactly \<open>/api/health\<close> or \<open>/api/servers\<close>,
  \<open>PerServer i a\<close> when the path matches the per-server pattern with id \<open>i\<close> and
  optional action \<open>a\<close>, and \<open>Unmatched\<close> otherwise. \<open>searchParams\<close> are the query
  pairs in order (\<open>get\<close> returns the first value of a key) and \<open>req_body\<close> the
  string properties of the JSON body, \<open>None\<close> for a missing body.
\<close>

datatype http_method = GET | POST | PUT | DELETE

datatype route =
    RStatus | RStart | RStop | RRestart | RLogs | RCommand | RStats
  | RFilesContent | RFilesRename | RFilesUpload | RFilesDownload | RFilesDir | RFiles

datatype target = NonApi | Health | ServerList | PerServer string "route option" | Unmatched

record request =
  req_method :: http_method
  req_target :: target
  searchParams :: "(string \<times> string) list"
  req_body :: "(string \<times> string) list option"

record PlayerInfo =
  pl_online :: nat
  pl_max :: nat
  pl_names :: "string list"

record HostInfo =
  cpuPercent :: nat
  memUsedMB :: nat
  memTotalMB :: nat
  memPercent :: nat

record ProcessInfo =
  pid :: nat
  proc_cpuPercent :: nat
  memMB :: "nat option"

record WorldInfo =
  world_path :: string
  sizeBytes :: nat

record StatsSnapshot =
  snap_status :: ServerStatus
  players :: PlayerInfo
  tps :: "rat option"
  host :: HostInfo
  process :: "ProcessInfo option"
  world :: WorldInfo
  timestamp :: string

record Listing =
  en_name :: string
  en_path :: string
  en_type :: EntryType
  en_size :: "nat option"

text \<open>The bodies. In \<open>{server, state}\<close> the state is the stored state object of
  the server itself, not a copy: \<open>StateBody server i\<close> holds the object of id \<open>i\<close>.
  Every other body is built from values read during the call.\<close>

datatype resp_body =
    ErrorBody string
  | HealthBody string
  | ServersBody "MockServer list"
  | StateBody MockServer string
  | LogsBody "string list"
  | OkBody
  | StatsBody StatsSnapshot
  | EntriesBody "Listing list"
  | ContentBody string
  | BlobBody string

text \<open>What a call of the interceptor produces: a response with its HTTP status, the
  request handed on to the next handler, or an exception that leaves the function.\<close>

datatype response = Response nat resp_body | Forwarded | Thrown string

text \<open>\<open>ok(body, status)\<close>: the response, which the source hands to the subscriber
  200 ms after the call.\<close>

definition ok :: "resp_body \<Rightarrow> nat \<Rightarrow> response" where
  "ok b code = Response code b"

text \<open>The state that a \<open>{server, state}\<close> response shows to whoever reads its body
  while the store is \<open>st\<close>: the value the object has then. Read with the store the
  call returned, this is the body as built; read with the store of 200 ms later, it is
  the body as delivered.\<close>

definition stateRead :: "mock_store \<Rightarrow> response \<Rightarrow> ServerState option" where
  "stateRead st r =
     (case r of
        Response code (StateBody server i) \<Rightarrow> map_of (serverStates st) i
      | _ \<Rightarrow> None)"

definition param :: "(string \<times> string) list \<Rightarrow> string \<Rightarrow> string \<Rightarrow> string" where
  "param ps k dflt = (case map_of ps k of None \<Rightarrow> dflt | Some v \<Rightarrow> v)"

definition bodyField :: "(string \<times> string) list option \<Rightarrow> string \<Rightarrow> string \<Rightarrow> string" where
  "bodyField b k dflt = (case b of None \<Rightarrow> dflt | Some fs \<Rightarrow> param fs k dflt)"

definition logsRoute :: "string \<Rightarrow> (string \<times> string) list \<Rightarrow> mock_store \<Rightarrow> response" where
  "logsRoute i ps st =
     (let limitParam = js_Number (param ps ''limit'' ''50'');
          limit = (if js_isNaN limitParam then Fin 50 else js_max1 limitParam);
          logs = js_slice (ToIntegerOrInfinity (js_neg limit)) (logsOf st i)
      in ok (LogsBody logs) 200)"

definition commandRoute ::
  "string \<Rightarrow> (string \<times> string) list option \<Rightarrow> mock_store \<Rightarrow> response \<times> mock_store" where
  "commandRoute i b st =
     (let command = js_trim (bodyField b ''command'' [])
      in (ok OkBody 200,
          if command \<noteq> []
          then appendLog i (''[INFO] Executed command: '' @ command)
                 (appendLog i (''[CMD] '' @ command) st)
          else st))"

definition statsRoute :: "ServerState \<Rightarrow> string \<Rightarrow> response" where
  "statsRoute state now =
     ok (StatsBody
          \<lparr>snap_status = status state,
           players = \<lparr>pl_online = 3, pl_max = 20, pl_names = [''Alex'', ''Steve'', ''Nau'']\<rparr>,
           tps = Some (99 / 5),
           host = \<lparr>cpuPercent = 32, memUsedMB = 3456, memTotalMB = 8192, memPercent = 42\<rparr>,
           process = Some \<lparr>pid = 4312, proc_cpuPercent = 18, memMB = Some 2048\<rparr>,
           world = \<lparr>world_path = ''world'', sizeBytes = 524288000\<rparr>,
           timestamp = now\<rparr>) 200"

definition filesOf :: "mock_store \<Rightarrow> string \<Rightarrow> FileEntry list" where
  "filesOf st i = (case map_of (serverFiles st) i of None \<Rightarrow> [] | Some fs \<Rightarrow> fs)"

definition setFiles :: "string \<Rightarrow> FileEntry list \<Rightarrow> mock_store \<Rightarrow> mock_store" where
  "setFiles i fs st = st\<lparr>serverFiles := AList.update i fs (serverFiles st)\<rparr>"

definition filesListRoute :: "string \<Rightarrow> (string \<times> string) list \<Rightarrow> mock_store \<Rightarrow> response" where
  "filesListRoute i ps st =
     (let pathParam = normalizePath (param ps ''path'' [])
      in ok (EntriesBody
              (map (\<lambda>e. \<lparr>en_name = getName (fe_path e),
                         en_path = normalizePath (fe_path e),
                         en_type = fe_type e,
                         en_size = (if fe_type e = EFile
                                    then Some (case fe_content e of
                                                 None \<Rightarrow> 0 | Some c \<Rightarrow> length c)
                                    else None)\<rparr>)
                 (filter (\<lambda>e. getParentPath (fe_path e) = pathParam) (filesOf st i)))) 200)"

definition findFile :: "string \<Rightarrow> FileEntry list \<Rightarrow> FileEntry option" where
  "findFile p fs = find (\<lambda>item. normalizePath (fe_path item) = p \<and> fe_type item = EFile) fs"

definition contentGetRoute :: "string \<Rightarrow> (string \<times> string) list \<Rightarrow> mock_store \<Rightarrow> response" where
  "contentGetRoute i ps st =
     (case findFile (normalizePath (param ps ''path'' [])) (filesOf st i) of
        None \<Rightarrow> ok (ErrorBody ''File not found.'') 404
      | Some e \<Rightarrow> ok (ContentBody (case fe_content e of None \<Rightarrow> [] | Some c \<Rightarrow> c)) 200)"

text \<open>The first element that satisfies \<open>P\<close> is changed in place.\<close>

fun update_first :: "('a \<Rightarrow> bool) \<Rightarrow> ('a \<Rightarrow> 'a) \<Rightarrow> 'a list \<Rightarrow> 'a list" where
  "update_first P f [] = []"
| "update_first P f (x # xs) = (if P x then f x # xs else x # update_first P f xs)"

definition contentPostRoute ::
  "string \<Rightarrow> (string \<times> string) list option \<Rightarrow> mock_store \<Rightarrow> response \<times> mock_store" where
  "contentPostRoute i b st =
     (let pathParam = normalizePath (bodyField b ''path'' []);
          content = bodyField b ''content'' [];
          files = filesOf st i;
          same = (\<lambda>item. normalizePath (fe_path item) = pathParam);
          files' = (case find same files of
                      Some _ \<Rightarrow>
                        update_first same
                          (\<lambda>e. e\<lparr>fe_type := EFile, fe_content := Some content\<rparr>) files
                    | None \<Rightarrow>
                        files @ [\<lparr>fe_path = pathParam, fe_type = EFile,
                                  fe_content = Some content\<rparr>])
      in (ok OkBody 200, setFiles i files' st))"

definition dirPostRoute ::
  "string \<Rightarrow> (string \<times> string) list option \<Rightarrow> mock_store \<Rightarrow> response \<times> mock_store" where
  "dirPostRoute i b st =
     (let pathParam = normalizePath (bodyField b ''path'' []);
          files = filesOf st i;
          files' = (case find (\<lambda>item. normalizePath (fe_path item) = pathParam) files of
                      Some _ \<Rightarrow> files
                    | None \<Rightarrow>
                        files @ [\<lparr>fe_path = pathParam, fe_type = EDir, fe_content = None\<rparr>])
      in (ok OkBody 200, setFiles i files' st))"

definition renameRoute ::
  "string \<Rightarrow> (string \<times> string) list option \<Rightarrow> mock_store \<Rightarrow> response \<times> mock_store" where
  "renameRoute i b st =
     (let from = normalizePath (bodyField b ''from'' []);
          to = normalizePath (bodyField b ''to'' []);
          files' = map (\<lambda>item.
                     if normalizePath (fe_path item) = from
                        \<or> js_startsWith (normalizePath (fe_path item)) (from @ ''/'')
                     then item\<lparr>fe_path := js_replace (normalizePath (fe_path item)) from to\<rparr>
                     else item) (filesOf st i)
      in (ok OkBody 200, setFiles i files' st))"

definition deleteRoute ::
  "string \<Rightarrow> (string \<times> string) list \<Rightarrow> mock_store \<Rightarrow> response \<times> mock_store" where
  "deleteRoute i ps st =
     (let pathParam = normalizePath (param ps ''path'' []);
          files' = filter (\<lambda>item.
                     normalizePath (fe_path item) \<noteq> pathParam
                     \<and> \<not> js_startsWith (normalizePath (fe_path item)) (pathParam @ ''/''))
                     (filesOf st i)
      in (ok OkBody 200, setFiles i files' st))"

text \<open>\<open>atob\<close> is the platform's base64 decoder, a parameter of the model: \<open>None\<close>
  when it raises on its input.\<close>

definition uploadRoute ::
  "(string \<Rightarrow> string option) \<Rightarrow> string \<Rightarrow> (string \<times> string) list option \<Rightarrow> mock_store
     \<Rightarrow> response \<times> mock_store" where
  "uploadRoute atob i b st =
     (let basePath = normalizePath (bodyField b ''path'' []);
          name = bodyField b ''name'' ''upload.txt''
      in case atob (bodyField b ''contentBase64'' []) of
           None \<Rightarrow> (Thrown ''InvalidCharacterError'', st)
         | Some content \<Rightarrow>
             (ok OkBody 200,
              setFiles i
                (filesOf st i @
                   [\<lparr>fe_path = normalizePath (basePath @ ''/'' @ name), fe_type = EFile,
                     fe_content = Some content\<rparr>]) st))"

definition downloadRoute :: "string \<Rightarrow> (string \<times> string) list \<Rightarrow> mock_store \<Rightarrow> response" where
  "downloadRoute i ps st =
     (case findFile (normalizePath (param ps ''path'' [])) (filesOf st i) of
        None \<Rightarrow> ok (ErrorBody ''File not found.'') 404
      | Some e \<Rightarrow> ok (BlobBody (case fe_content e of None \<Rightarrow> [] | Some c \<Rightarrow> c)) 200)"

text \<open>The three lifecycle blocks at the end of the handler. Each assigns the fields
  of the stored state object and appends its log line; the blocks run one after the
  other, and the body of the response holds the state object itself.\<close>

definition setState :: "string \<Rightarrow> ServerState \<Rightarrow> mock_store \<Rightarrow> mock_store" where
  "setState i s st = st\<lparr>serverStates := AList.update i s (serverStates st)\<rparr>"

definition lifecycleBlock ::
  "route \<Rightarrow> ServerStatus \<Rightarrow> ActionName \<Rightarrow> string \<Rightarrow> string \<Rightarrow> route option \<Rightarrow> string
     \<Rightarrow> ServerState \<times> mock_store \<Rightarrow> ServerState \<times> mock_store" where
  "lifecycleBlock r s a line i action now p =
     (if action = Some r
      then (let state' = (fst p)\<lparr>status := s, lastAction := Some a, lastActionAt := Some now\<rparr>
            in (state', appendLog i line (setState i state' (snd p))))
      else p)"

definition lifecycleRoutes ::
  "string \<Rightarrow> MockServer \<Rightarrow> route option \<Rightarrow> string \<Rightarrow> ServerState \<times> mock_store
     \<Rightarrow> response \<times> mock_store" where
  "lifecycleRoutes i server action now p =
     (let p1 = lifecycleBlock RStart online start ''[INFO] Server started'' i action now p;
          p2 = lifecycleBlock RStop offline stop ''[INFO] Server stopped'' i action now p1;
          p3 = lifecycleBlock RRestart online restart ''[INFO] Server restarted'' i action now p2
      in (ok (StateBody server i) 200, snd p3))"

definition perServer ::
  "string \<Rightarrow> (string \<Rightarrow> string option) \<Rightarrow> http_method \<Rightarrow> string \<Rightarrow> route option
     \<Rightarrow> (string \<times> string) list \<Rightarrow> (string \<times> string) list option \<Rightarrow> mock_store
     \<Rightarrow> response \<times> mock_store" where
  "perServer now atob m i action ps b st =
     (case find (\<lambda>item. srv_id item = i) mockServers of
        None \<Rightarrow> (ok (ErrorBody ''Server not found.'') 404, st)
      | Some server \<Rightarrow>
          (let state = fst (getServerState i st);
               st1 = snd (getServerState i st)
           in if action = None \<or> action = Some RStatus
              then (ok (StateBody server i) 200, st1)
              else if action = Some RLogs \<and> m = GET then (logsRoute i ps st1, st1)
              else if action = Some RCommand \<and> m = POST then commandRoute i b st1
              else if action = Some RStats \<and> m = GET then (statsRoute state now, st1)
              else if action = Some RFiles \<and> m = GET then (filesListRoute i ps st1, st1)
              else if action = Some RFilesContent \<and> m = GET
              then (contentGetRoute i ps st1, st1)
              else if action = Some RFilesContent \<and> m = POST then contentPostRoute i b st1
              else if action = Some RFilesDir \<and> m = POST then dirPostRoute i b st1
              else if action = Some RFilesRename \<and> m = POST then renameRoute i b st1
              else if action = Some RFiles \<and> m = DELETE then deleteRoute i ps st1
              else if action = Some RFilesUpload \<and> m = POST then uploadRoute atob i b st1
              else if action = Some RFilesDownload \<and> m = GET
              then (downloadRoute i ps st1, st1)
              else lifecycleRoutes i server action now (state, st1)))"

definition seedAll :: "mock_store \<Rightarrow> mock_store" where
  "seedAll st = seedFiles (seedLogs (seedStates st))"

text \<open>A store on which the three seeding steps have nothing left to do.\<close>

definition seeded :: "mock_store \<Rightarrow> bool" where
  "seeded st = (statesSeeded st \<and> logsSeeded st \<and> serverFiles st \<noteq> [])"

text \<open>\<open>mockApiInterceptor\<close>; \<open>now\<close> is the clock reading that
  \<open>new Date().toISOString()\<close> returns during the call.\<close>

definition mockApiInterceptor ::
  "string \<Rightarrow> (string \<Rightarrow> string option) \<Rightarrow> request \<Rightarrow> mock_store \<Rightarrow> response \<times> mock_store" where
  "mockApiInterceptor now atob req st =
     (if req_target req = NonApi then (Forwarded, st)
      else (let st1 = seedAll st
            in if req_target req = Health \<and> req_method req = GET
               then (ok (HealthBody now) 200, st1)
               else if req_target req = ServerList \<and> req_method req = GET
               then (ok (ServersBody mockServers) 200, st1)
               else case req_target req of
                      PerServer i action \<Rightarrow>
                        perServer now atob (req_method req) i action (searchParams req)
                          (req_body req) st1
                    | _ \<Rightarrow> (ok (ErrorBody ''Mock endpoint not implemented.'') 404, st1)))"

text \<open>Every buffer of the store holds at most 200 lines.\<close>

definition bounded :: "mock_store \<Rightarrow> bool" where
  "bounded st = (\<forall>i. length (logsOf st i) \<le> 200)"

section \<open>The backend (the Express server): state, log buffer and routes\<close>

text \<open>Source: \<^verbatim>\<open>src/backend/run-backend.sh\<close>, lines 30 to 986, the TypeScript of
  the Express server that follows the shell script in that file: the state at lines
  129 to 133, \<open>getServerState\<close>, \<open>appendLog\<close> and \<open>broadcastLog\<close> at lines 432 to
  469, the status, lifecycle, logs, command and stats routes at lines 488 to 663. The
  file routes (lines 665 to 927) work on the real file system and are not modelled;
  each of them starts with the same guard as the routes below.\<close>


record RconConfig =
  rc_host :: "string option"
  rc_port :: nat
  rc_password :: "string option"

text \<open>The backend's \<open>ServerConfig\<close>, with the optional \<open>rcon\<close> block.\<close>

record BackendServer =
  cfg_id :: string
  cfg_name :: string
  cfg_path :: string
  cfg_port :: nat
  cfg_description :: "string option"
  cfg_rcon :: "RconConfig option"

text \<open>What the server writes to a console client: one appended line, or a snapshot.\<close>

datatype ws_server_msg = LogMsg string | LogsMsg "string list"

text \<open>The module-level state of the backend. A console client is a number;
  \<open>openClients\<close> are the clients whose socket is \<open>OPEN\<close>, \<open>serverSubscribers\<close>
  holds each id's set in insertion order, and \<open>wsOutbox\<close> records every payload
  sent, in order, with its receiver.\<close>

record backend_store =
  servers :: "BackendServer list"
  serversLoaded :: bool
  b_serverStates :: "(string \<times> ServerState) list"
  b_serverLogs :: "(string \<times> string list) list"
  serverSubscribers :: "(string \<times> nat list) list"
  openClients :: "nat list"
  wsOutbox :: "(nat \<times> ws_server_msg) list"

datatype b_resp_body =
    BError string
  | BState BackendServer ServerState
  | BLogs "string list"
  | BOk
  | BStats StatsSnapshot

definition getServerById :: "backend_store \<Rightarrow> string \<Rightarrow> BackendServer option" where
  "getServerById st i = find (\<lambda>server. cfg_id server = i) (servers st)"

definition getServerState_backend ::
  "string \<Rightarrow> backend_store \<Rightarrow> ServerState \<times> backend_store" where
  "getServerState_backend i st =
     (case map_of (b_serverStates st) i of
        Some existing \<Rightarrow> (existing, st)
      | None \<Rightarrow>
          (defaultState,
           st\<lparr>b_serverStates := AList.update i defaultState (b_serverStates st)\<rparr>))"

definition setState_backend :: "string \<Rightarrow> ServerState \<Rightarrow> backend_store \<Rightarrow> backend_store" where
  "setState_backend i s st = st\<lparr>b_serverStates := AList.update i s (b_serverStates st)\<rparr>"

definition logsOf_backend :: "backend_store \<Rightarrow> string \<Rightarrow> string list" where
  "logsOf_backend st i = (case map_of (b_serverLogs st) i of None \<Rightarrow> [] | Some l \<Rightarrow> l)"

definition broadcastLog :: "string \<Rightarrow> string \<Rightarrow> backend_store \<Rightarrow> backend_store" where
  "broadcastLog i line st =
     (case map_of (serverSubscribers st) i of
        None \<Rightarrow> st
      | Some subscribers \<Rightarrow>
          st\<lparr>wsOutbox := wsOutbox st @
                 map (\<lambda>client. (client, LogMsg line))
                   (filter (\<lambda>client. client \<in> set (openClients st)) subscribers)\<rparr>)"

definition appendLog_backend :: "string \<Rightarrow> string \<Rightarrow> backend_store \<Rightarrow> backend_store" where
  "appendLog_backend i line st =
     (let logs = logsOf_backend st i @ [line];
          logs' = (if length logs > 200 then drop (length logs - 200) logs else logs)
      in broadcastLog i line (st\<lparr>b_serverLogs := AList.update i logs' (b_serverLogs st)\<rparr>))"

text \<open>\<open>!server.rcon?.password\<close>: no \<open>rcon\<close> block, no password in it, or the empty
  password.\<close>

definition noRconPassword :: "BackendServer \<Rightarrow> bool" where
  "noRconPassword server =
     (case cfg_rcon server of
        None \<Rightarrow> True
      | Some r \<Rightarrow> (case rc_password r of None \<Rightarrow> True | Some pw \<Rightarrow> pw = []))"

text \<open>The guard that opens every route: the registry must be loaded and hold the id.\<close>

definition withServer ::
  "string \<Rightarrow> backend_store \<Rightarrow> (BackendServer \<Rightarrow> (nat \<times> b_resp_body) \<times> backend_store)
     \<Rightarrow> (nat \<times> b_resp_body) \<times> backend_store" where
  "withServer i st k =
     (if \<not> serversLoaded st then ((500, BError ''No servers configured.''), st)
      else case getServerById st i of
             None \<Rightarrow> ((404, BError ''Server not found.''), st)
           | Some server \<Rightarrow> k server)"

text \<open>\<open>GET /api/servers/:id/status\<close>. \<open>reachable\<close> is whether \<open>Rcon.connect\<close>
  succeeds within its timeout; it is consulted only when a password is configured.\<close>

definition statusRoute_backend ::
  "bool \<Rightarrow> string \<Rightarrow> backend_store \<Rightarrow> (nat \<times> b_resp_body) \<times> backend_store" where
  "statusRoute_backend reachable i st =
     withServer i st (\<lambda>server.
       (let state = fst (getServerState_backend (cfg_id server) st);
            st1 = snd (getServerState_backend (cfg_id server) st)
        in if noRconPassword server then ((200, BState server state), st1)
           else (let state' = state\<lparr>status := (if reachable then online else offline)\<rparr>
                 in ((200, BState server state'), setState_backend (cfg_id server) state' st1))))"

text \<open>\<open>POST /api/servers/:id/start\<close>, \<open>stop\<close> and \<open>restart\<close>.\<close>

definition lifecycleRoute_backend ::
  "ActionName \<Rightarrow> string \<Rightarrow> string \<Rightarrow> backend_store \<Rightarrow> (nat \<times> b_resp_body) \<times> backend_store" where
  "lifecycleRoute_backend a now i st =
     withServer i st (\<lambda>server.
       (let state = fst (getServerState_backend (cfg_id server) st);
            st1 = snd (getServerState_backend (cfg_id server) st);
            state' = state\<lparr>status := (case a of start \<Rightarrow> online | stop \<Rightarrow> offline
                                        | restart \<Rightarrow> online),
                            lastAction := Some a, lastActionAt := Some now\<rparr>;
            line = (case a of start \<Rightarrow> ''[INFO] Server started''
                    | stop \<Rightarrow> ''[INFO] Server stopped''
                    | restart \<Rightarrow> ''[INFO] Server restarted'')
        in ((200, BState server state'),
            appendLog_backend (cfg_id server) line
              (setState_backend (cfg_id server) state' st1))))"

text \<open>\<open>GET /api/servers/:id/logs\<close>; \<open>q\<close> is the \<open>limit\<close> query value when it is a
  single string, \<open>None\<close> when the key is absent.\<close>

definition logsRoute_backend ::
  "string option \<Rightarrow> string \<Rightarrow> backend_store \<Rightarrow> (nat \<times> b_resp_body) \<times> backend_store" where
  "logsRoute_backend q i st =
     withServer i st (\<lambda>server.
       (let limitParam = (case q of None \<Rightarrow> Fin 50 | Some v \<Rightarrow> js_Number v);
            limit = (if js_isNaN limitParam then Fin 50 else js_max1 limitParam)
        in ((200, BLogs (js_slice (ToIntegerOrInfinity (js_neg limit))
                          (logsOf_backend st (cfg_id server)))), st)))"

text \<open>\<open>POST /api/servers/:id/command\<close>; \<open>c\<close> is \<open>body.command\<close>.\<close>

definition commandRoute_backend ::
  "string option \<Rightarrow> string \<Rightarrow> backend_store \<Rightarrow> (nat \<times> b_resp_body) \<times> backend_store" where
  "commandRoute_backend c i st =
     withServer i st (\<lambda>server.
       (let command = js_trim (case c of None \<Rightarrow> [] | Some v \<Rightarrow> v)
        in ((200, BOk),
            if command \<noteq> []
            then appendLog_backend (cfg_id server) (''[INFO] Executed command: '' @ command)
                   (appendLog_backend (cfg_id server) (''[CMD] '' @ command) st)
            else st)))"

text \<open>What the stats route reads from outside the process once the remote console
  is configured: \<open>None\<close> when the connection or the \<open>list\<close> query fails, otherwise
  the player list, the tick rate, the host and process samples and the world
  directory, already parsed and measured.\<close>

record Collected =
  col_players :: PlayerInfo
  col_tps :: "rat option"
  col_host :: HostInfo
  col_process :: "ProcessInfo option"
  col_world :: WorldInfo

text \<open>\<open>GET /api/servers/:id/stats\<close>.\<close>

definition statsRoute_backend ::
  "Collected option \<Rightarrow> string \<Rightarrow> string \<Rightarrow> backend_store
     \<Rightarrow> (nat \<times> b_resp_body) \<times> backend_store" where
  "statsRoute_backend collected now i st =
     withServer i st (\<lambda>server.
       if noRconPassword server then ((400, BError ''RCON not configured.''), st)
       else (let state = fst (getServerState_backend (cfg_id server) st);
                 st1 = snd (getServerState_backend (cfg_id server) st)
             in case collected of
                  Some c \<Rightarrow>
                    (let state' = state\<lparr>status := online\<rparr>
                     in ((200, BStats \<lparr>snap_status = status state', players = col_players c,
                                       tps = col_tps c, host = col_host c,
                                       process = col_process c, world = col_world c,
                                       timestamp = now\<rparr>),
                         setState_backend (cfg_id server) state' st1))
                | None \<Rightarrow>
                    (let state' = state\<lparr>status := offline\<rparr>
                     in ((500, BError ''Unable to fetch server stats.''),
                         setState_backend (cfg_id server) state' st1))))"

section \<open>The client: status refresh (AppStateService)\<close>

text \<open>Source: \<^verbatim>\<open>src/frontend/src/app/services/app-state.service.ts\<close>, lines 116
  to 148.\<close>


text \<open>The outcome of one status request: an error, a response that never arrives,
  or the \<open>{server, state}\<close> body.\<close>

datatype status_outcome = Failed | Pending | Succeeded MockServer ServerState

definition fallbackState :: ServerState where
  "fallbackState = \<lparr>status = offline, lastAction = None, lastActionAt = None\<rparr>"

text \<open>\<open>catchError\<close> turns an error into the fallback result for that server.\<close>

definition caught :: "MockServer \<Rightarrow> status_outcome \<Rightarrow> (MockServer \<times> ServerState) option" where
  "caught server out =
     (case out of
        Failed \<Rightarrow> Some (server, fallbackState)
      | Pending \<Rightarrow> None
      | Succeeded sv s \<Rightarrow> Some (sv, s))"

text \<open>\<open>forkJoin\<close> emits the list of results once every request has delivered one.\<close>

fun forkJoin :: "'a option list \<Rightarrow> 'a list option" where
  "forkJoin [] = Some []"
| "forkJoin (None # rs) = None"
| "forkJoin (Some r # rs) = (case forkJoin rs of None \<Rightarrow> None | Some xs \<Rightarrow> Some (r # xs))"

text \<open>\<open>refreshStatuses\<close>: \<open>http s\<close> is the outcome of the status request for server
  \<open>s\<close>; the result is the value of \<open>statusSubject\<close>, given its value before.\<close>

definition refreshStatuses ::
  "(MockServer \<Rightarrow> status_outcome) \<Rightarrow> MockServer list \<Rightarrow> (string \<times> ServerState) list
     \<Rightarrow> (string \<times> ServerState) list" where
  "refreshStatuses http srvs statusSubject =
     (if srvs = [] then []
      else case forkJoin (map (\<lambda>server. caught server (http server)) srvs) of
             None \<Rightarrow> statusSubject
           | Some results \<Rightarrow>
               foldl (\<lambda>nextStates (sv, s). AList.update (srv_id sv) s nextStates) [] results)"

text \<open>An example for the refresh: two servers, and an HTTP layer whose request for
  the first fails while the second answers.\<close>

definition demo_servers :: "MockServer list" where
  "demo_servers =
     [\<lparr>srv_id = ''nau-survival'', srv_name = ''Nau Survival'', srv_path = ''/a'',
       srv_port = 25565, srv_description = None\<rparr>,
      \<lparr>srv_id = ''nau-creative'', srv_name = ''Nau Creative'', srv_path = ''/b'',
       srv_port = 25566, srv_description = None\<rparr>]"

definition demo_http :: "MockServer \<Rightarrow> status_outcome" where
  "demo_http s =
     (if srv_id s = ''nau-survival'' then Failed
      else Succeeded s \<lparr>status = online, lastAction = Some start,
                         lastActionAt = Some ''2026-02-08T07:40:00.000Z''\<rparr>)"

section \<open>The client: console service (ConsoleSocketService)\<close>

text \<open>Source: \<^verbatim>\<open>src/frontend/src/app/services/app-state.service.ts\<close>, lines 164
  to 317. The limit is a JavaScript number in the source; the service only stores it
  and passes it on, and the model takes an integer. URLs are not built: a request is
  recorded by what it asks for.\<close>


text \<open>A parsed JSON value, with \<open>JUndefined\<close> for a property that is not there.\<close>

datatype jsval =
    JUndefined | JNull | JBool bool | JNum rat | JStr string
  | JArr "jsval list" | JObj "(string \<times> jsval) list"

text \<open>Reading one of the properties \<open>type\<close>, \<open>logs\<close>, \<open>line\<close> or \<open>slice\<close> of a value
  that is neither \<open>null\<close> nor \<open>undefined\<close>: only an object can hold the first three,
  and every other value yields \<open>undefined\<close>.\<close>

definition get_prop :: "jsval \<Rightarrow> string \<Rightarrow> jsval" where
  "get_prop v k =
     (case v of
        JObj fs \<Rightarrow> (case map_of fs k of None \<Rightarrow> JUndefined | Some x \<Rightarrow> x)
      | _ \<Rightarrow> JUndefined)"

fun falsy :: "jsval \<Rightarrow> bool" where
  "falsy JUndefined = True"
| "falsy JNull = True"
| "falsy (JBool b) = (\<not> b)"
| "falsy (JNum q) = (q = 0)"
| "falsy (JStr s) = (s = [])"
| "falsy (JArr xs) = False"
| "falsy (JObj fs) = False"

text \<open>The value of \<open>logsSubject\<close>: an array, or a string when a snapshot message
  carried a string in \<open>logs\<close>.\<close>

datatype published = PArr "jsval list" | PStr string

fun plength :: "published \<Rightarrow> nat" where
  "plength (PArr xs) = length xs"
| "plength (PStr s) = length s"

text \<open>\<open>[...value]\<close>.\<close>

fun spread :: "published \<Rightarrow> jsval list" where
  "spread (PArr xs) = xs"
| "spread (PStr s) = map (\<lambda>c. JStr [c]) s"

datatype ready_state = CONNECTING | OPEN | CLOSING | CLOSED

datatype WsMessage = Subscribe string int | Command string

text \<open>The requests the service makes through \<open>HttpClient\<close>.\<close>

datatype http_call = GetLogs string int | PostCommand string string

text \<open>The answer to a \<open>GetLogs\<close> call.\<close>

datatype logs_response = LogsOk "string list" | LogsFailed

text \<open>The service's fields, and what it has done to the world: \<open>ws_sent\<close> are the
  messages written to the socket, \<open>http_calls\<close> the HTTP requests issued and
  \<open>intervals\<close> the running interval timers with their periods in ms (each calls
  \<open>fetchLogs\<close>), all in order of occurrence.\<close>

record console =
  socket :: "ready_state option"
  pollingId :: "nat option"
  serverId :: string
  limit :: int
  logsSubject :: published
  ws_sent :: "WsMessage list"
  http_calls :: "http_call list"
  intervals :: "(nat \<times> nat) list"
  nextTimerId :: nat

definition maxDisplay :: int where
  "maxDisplay = 5000"

definition initial_console :: console where
  "initial_console =
     \<lparr>socket = None, pollingId = None, serverId = [], limit = 50, logsSubject = PArr [],
      ws_sent = [], http_calls = [], intervals = [], nextTimerId = 0\<rparr>"

definition fetchLogs :: "console \<Rightarrow> console" where
  "fetchLogs c =
     (if serverId c = [] then c
      else c\<lparr>http_calls := http_calls c @ [GetLogs (serverId c) (limit c)]\<rparr>)"

text \<open>The two callbacks of the \<open>GetLogs\<close> subscription.\<close>

definition onLogsResponse :: "logs_response \<Rightarrow> console \<Rightarrow> console" where
  "onLogsResponse r c =
     (case r of
        LogsOk logs \<Rightarrow>
          c\<lparr>logsSubject := PArr (js_slice (IntVal (- maxDisplay)) (map JStr logs))\<rparr>
      | LogsFailed \<Rightarrow> c\<lparr>logsSubject := PArr []\<rparr>)"

definition clearInterval :: "nat \<Rightarrow> console \<Rightarrow> console" where
  "clearInterval t c = c\<lparr>intervals := filter (\<lambda>p. fst p \<noteq> t) (intervals c)\<rparr>"

definition startPolling :: "console \<Rightarrow> console" where
  "startPolling c =
     (let c1 = fetchLogs c;
          c2 = (case pollingId c1 of None \<Rightarrow> c1 | Some t \<Rightarrow> clearInterval t c1)
      in c2\<lparr>pollingId := Some (nextTimerId c2),
             intervals := intervals c2 @ [(nextTimerId c2, 2000)],
             nextTimerId := Suc (nextTimerId c2)\<rparr>)"

text \<open>An interval timer fires: its callback is \<open>fetchLogs\<close>.\<close>

definition onTick :: "nat \<Rightarrow> console \<Rightarrow> console" where
  "onTick t c = (if t \<in> fst ` set (intervals c) then fetchLogs c else c)"

definition disconnect :: "console \<Rightarrow> console" where
  "disconnect c =
     (let c1 = (case socket c of None \<Rightarrow> c | Some _ \<Rightarrow> c\<lparr>socket := None\<rparr>)
      in case pollingId c1 of
           None \<Rightarrow> c1
         | Some t \<Rightarrow> (clearInterval t c1)\<lparr>pollingId := None\<rparr>)"

definition send :: "WsMessage \<Rightarrow> console \<Rightarrow> console" where
  "send m c =
     (if socket c \<noteq> Some OPEN then c else c\<lparr>ws_sent := ws_sent c @ [m]\<rparr>)"

definition openSocket :: "console \<Rightarrow> console" where
  "openSocket c = c\<lparr>socket := Some CONNECTING\<rparr>"

text \<open>The current socket opens: it is \<open>OPEN\<close> now and its \<open>onopen\<close> handler
  runs. Without a current socket nothing happens.\<close>

definition onOpen :: "console \<Rightarrow> console" where
  "onOpen c =
     (case socket c of
        None \<Rightarrow> c
      | Some _ \<Rightarrow>
          (let c1 = c\<lparr>socket := Some OPEN\<rparr>
           in if serverId c1 \<noteq> [] then send (Subscribe (serverId c1) (limit c1)) c1
              else c1))"

text \<open>The current socket is closed by the other side; the service has no handler
  for it, only the socket's state changes.\<close>

definition onClose :: "console \<Rightarrow> console" where
  "onClose c = (case socket c of None \<Rightarrow> c | Some _ \<Rightarrow> c\<lparr>socket := Some CLOSED\<rparr>)"

text \<open>\<open>connect(serverId, limit)\<close>; \<open>useMocks\<close> is \<open>environment.useMocks\<close>.\<close>

definition connect :: "bool \<Rightarrow> string \<Rightarrow> int \<Rightarrow> console \<Rightarrow> console" where
  "connect useMocks sid n c =
     (let c1 = c\<lparr>serverId := sid, limit := n, logsSubject := PArr []\<rparr>
      in if sid = [] then disconnect c1
         else if useMocks then startPolling c1
         else (let c2 = (if socket c1 = None \<or> socket c1 = Some CLOSED
                         then openSocket c1 else c1)
               in send (Subscribe sid n) c2))"

definition setLimit :: "bool \<Rightarrow> int \<Rightarrow> console \<Rightarrow> console" where
  "setLimit useMocks n c =
     (let c1 = c\<lparr>limit := n\<rparr>
      in if serverId c1 = [] then c1
         else if useMocks then fetchLogs c1
         else send (Subscribe (serverId c1) n) c1)"

definition sendCommand :: "bool \<Rightarrow> string \<Rightarrow> console \<Rightarrow> console" where
  "sendCommand useMocks command c =
     (let trimmed = js_trim command
      in if trimmed = [] \<or> serverId c = [] then c
         else if useMocks
         then c\<lparr>http_calls := http_calls c @ [PostCommand (serverId c) trimmed]\<rparr>
         else send (Command trimmed) c)"

text \<open>The callbacks of the \<open>PostCommand\<close> subscription: \<open>fetchLogs\<close> on success,
  nothing on error.\<close>

definition onCommandResponse :: "bool \<Rightarrow> console \<Rightarrow> console" where
  "onCommandResponse succeeded c = (if succeeded then fetchLogs c else c)"

text \<open>\<open>onMessage\<close>. \<open>parse\<close> is \<open>JSON.parse\<close>, \<open>None\<close> where it raises. The result is
  the service afterwards, or the exception that leaves the handler.\<close>

definition onMessage ::
  "(string \<Rightarrow> jsval option) \<Rightarrow> string \<Rightarrow> console \<Rightarrow> string + console" where
  "onMessage parse data c =
     (case parse data of
        None \<Rightarrow> Inr c
      | Some message \<Rightarrow>
          if falsy message then Inr c
          else if get_prop message ''type'' = JStr ''logs'' then
            (case get_prop message ''logs'' of
               JArr xs \<Rightarrow> Inr (c\<lparr>logsSubject := PArr (js_slice (IntVal (- maxDisplay)) xs)\<rparr>)
             | JStr s \<Rightarrow> Inr (c\<lparr>logsSubject := PStr (js_slice (IntVal (- maxDisplay)) s)\<rparr>)
             | _ \<Rightarrow> Inl ''TypeError'')
          else if get_prop message ''type'' = JStr ''log'' then
            Inr (c\<lparr>logsSubject :=
                     PArr (js_slice (IntVal (- maxDisplay))
                            (spread (logsSubject c) @ [get_prop message ''line'']))\<rparr>)
          else Inr c)"

text \<open>Everything that can happen to the service: calls of its public methods and
  callbacks from the socket, the timers and the HTTP client. An exception in
  \<open>onMessage\<close> leaves the service as it was.\<close>

datatype event =
    Connect string int
  | SetLimit int
  | SendCommand string
  | Disconnect
  | SocketOpen
  | SocketClose
  | Message string
  | Tick nat
  | LogsResponse logs_response
  | CommandResponse bool

fun step :: "bool \<Rightarrow> (string \<Rightarrow> jsval option) \<Rightarrow> console \<Rightarrow> event \<Rightarrow> console" where
  "step useMocks parse c (Connect sid n) = connect useMocks sid n c"
| "step useMocks parse c (SetLimit n) = setLimit useMocks n c"
| "step useMocks parse c (SendCommand cmd) = sendCommand useMocks cmd c"
| "step useMocks parse c Disconnect = disconnect c"
| "step useMocks parse c SocketOpen = onOpen c"
| "step useMocks parse c SocketClose = onClose c"
| "step useMocks parse c (Message data) =
     (case onMessage parse data c of Inl _ \<Rightarrow> c | Inr c' \<Rightarrow> c')"
| "step useMocks parse c (Tick t) = onTick t c"
| "step useMocks parse c (LogsResponse r) = onLogsResponse r c"
| "step useMocks parse c (CommandResponse b) = onCommandResponse b c"

text \<open>An example for the console: a parser that knows two payloads, a snapshot of
  5001 lines and a single line, and a service whose published list is full.\<close>

definition demo_parse :: "string \<Rightarrow> jsval option" where
  "demo_parse data =
     (if data = ''snapshot''
      then Some (JObj [(''type'', JStr ''logs''),
                       (''logs'', JArr (JStr ''oldest'' # replicate 5000 (JStr ''newer'')))])
      else if data = ''line''
      then Some (JObj [(''type'', JStr ''log''), (''line'', JStr ''newest'')])
      else None)"

definition demo_console :: console where
  "demo_console =
     initial_console\<lparr>logsSubject := PArr (JStr ''oldest'' # replicate 4999 (JStr ''newer''))\<rparr>"

section \<open>Properties: the log buffer\<close>

lemma last_n_all: "length xs \<le> n \<Longrightarrow> last_n n xs = xs"
  by (simp add: last_n_def)

lemma length_last_n: "length (last_n n xs) = min n (length xs)"
  by (simp add: last_n_def)

lemma last_n_append_last_n: "last_n n (last_n n xs @ ys) = last_n n (xs @ ys)"
proof (cases "length xs \<le> n")
  case True
  then show ?thesis by (simp add: last_n_all)
next
  case False
  then have "length xs - n + length ys = length xs + length ys - n" by simp
  with False show ?thesis by (simp add: last_n_def add.commute)
qed

lemma logsOf_appendLog_same: "logsOf (appendLog i l st) i = last_n 200 (logsOf st i @ [l])"
  by (simp add: appendLog_def logsOf_def Let_def update_conv' last_n_def)

lemma logsOf_appendLog_other: "j \<noteq> i \<Longrightarrow> logsOf (appendLog i l st) j = logsOf st j"
  by (simp add: appendLog_def logsOf_def Let_def update_conv')

lemma appendLog_fields:
  "serverStates (appendLog i l st) = serverStates st"
  "serverFiles (appendLog i l st) = serverFiles st"
  "statesSeeded (appendLog i l st) = statesSeeded st"
  "logsSeeded (appendLog i l st) = logsSeeded st"
  by (simp_all add: appendLog_def Let_def)

lemma logsOf_foldl_appendLog:
  "length (logsOf st i) \<le> 200 \<Longrightarrow>
   logsOf (foldl (\<lambda>s l. appendLog i l s) st ls) i = last_n 200 (logsOf st i @ ls)"
proof (induction ls rule: rev_induct)
  case Nil
  then show ?case by (simp add: last_n_all)
next
  case (snoc l ls)
  then show ?case
    by (simp add: logsOf_appendLog_same last_n_append_last_n
        del: append_assoc add: append_assoc[symmetric])
qed

lemma appendLog_logsSeeded_fold:
  "logsSeeded (foldl (\<lambda>s l. appendLog i l s) st ls) = logsSeeded st"
  by (induction ls rule: rev_induct) (simp_all add: appendLog_fields)

text \<open>\<open>slice(-limit)\<close> for a limit of at least 1 keeps the last \<open>\<lfloor>limit\<rfloor>\<close>
  elements.\<close>

lemma slice_neg_limit:
  "1 \<le> q \<Longrightarrow> js_slice (ToIntegerOrInfinity (js_neg (Fin q))) xs = last_n (nat \<lfloor>q\<rfloor>) xs"
proof -
  assume q: "1 \<le> q"
  then have f: "1 \<le> \<lfloor>q\<rfloor>" by linarith
  have c: "\<lceil>- q\<rceil> = - \<lfloor>q\<rfloor>" by (simp add: ceiling_def)
  from q f show ?thesis
    by (simp add: c last_n_def nat_diff_distrib' max_def)
qed

lemma js_Number_1000: "js_Number ''1000'' = Fin 1000"
  by code_simp

lemma js_Number_50: "js_Number ''50'' = Fin 50"
  by code_simp

section \<open>Properties: the mock store\<close>

lemma seedAll_seeded: "seeded st \<Longrightarrow> seedAll st = st"
  by (simp add: seeded_def seedAll_def seedStates_def seedLogs_def seedFiles_def)

lemma seeded_seedAll: "seeded (seedAll st)"
  by (simp add: seeded_def seedAll_def seedStates_def seedLogs_def seedFiles_def mockServers_def)

lemma logsOf_seedAll: "logsSeeded st \<Longrightarrow> logsOf (seedAll st) j = logsOf st j"
  by (simp add: logsOf_def seedAll_def seedStates_def seedLogs_def seedFiles_def)

lemma getServerState_fields:
  "serverLogs (snd (getServerState i st)) = serverLogs st"
  "serverFiles (snd (getServerState i st)) = serverFiles st"
  "statesSeeded (snd (getServerState i st)) = statesSeeded st"
  "logsSeeded (snd (getServerState i st)) = logsSeeded st"
  by (simp_all add: getServerState_def split: option.split)

lemma logsOf_getServerState: "logsOf (snd (getServerState i st)) j = logsOf st j"
  by (simp add: logsOf_def getServerState_fields)

lemma getServerState_present:
  "map_of (serverStates st) i = Some s \<Longrightarrow> getServerState i st = (s, st)"
  by (simp add: getServerState_def)

lemma getServerState_other:
  "j \<noteq> i \<Longrightarrow> map_of (serverStates (snd (getServerState i st))) j = map_of (serverStates st) j"
  by (simp add: getServerState_def update_conv' split: option.split)

lemma getServerState_value:
  "fst (getServerState i st) =
     (case map_of (serverStates st) i of None \<Rightarrow> defaultState | Some s \<Rightarrow> s)"
  by (simp add: getServerState_def split: option.split)


lemma seeded_logs_survival:
  "logsOf (seedAll initial_store) ''nau-survival'' =
     [''[INFO] Starting minecraft server version 1.20.4'',
      ''[INFO] Loading properties'',
      ''[INFO] Default game type: SURVIVAL'',
      ''[INFO] Done (4.21s)! For help, type '' @ [CHR 0x22] @ ''help'' @ [CHR 0x22]]"
  by (simp add: logsOf_def seedAll_def seedStates_def seedLogs_def seedFiles_def
      initial_store_def mockLogs_def)

lemma seeded_logs_events:
  "logsOf (seedAll initial_store) ''nau-events'' =
     [''[INFO] Starting minecraft server version 1.20.4'',
      ''[INFO] Loading mini-games'',
      ''[INFO] Arena 2 ready'',
      ''[INFO] Done (4.66s)! For help, type '' @ [CHR 0x22] @ ''help'' @ [CHR 0x22]]"
  by (simp add: logsOf_def seedAll_def seedStates_def seedLogs_def seedFiles_def
      initial_store_def mockLogs_def)

lemma find_survival:
  "find (\<lambda>item. srv_id item = ''nau-survival'') mockServers =
     Some \<lparr>srv_id = ''nau-survival'', srv_name = ''Nau Survival'',
       srv_path = ''D:/Minecraft/servers/nau-survival'', srv_port = 25565,
       srv_description = Some ''Vanilla survival world focused on long-term progression.''\<rparr>"
  by (simp add: mockServers_def)

lemma find_events:
  "find (\<lambda>item. srv_id item = ''nau-events'') mockServers =
     Some \<lparr>srv_id = ''nau-events'', srv_name = ''Nau Events'',
       srv_path = ''D:/Minecraft/servers/nau-events'', srv_port = 25568,
       srv_description = Some ''Event server for mini-games and seasonal activities.''\<rparr>"
  by (simp add: mockServers_def)

lemma find_unknown: "find (\<lambda>item. srv_id item = ''nau-nowhere'') mockServers = None"
  by (simp add: mockServers_def)

section \<open>Properties: the routes of the mock API\<close>

lemma logsRoute_numeric:
  assumes "js_Number (param ps ''limit'' ''50'') = Fin q"
  shows "logsRoute i ps st = Response 200 (LogsBody (last_n (nat \<lfloor>max 1 q\<rfloor>) (logsOf st i)))"
  using assms slice_neg_limit[of "max 1 q" "logsOf st i"]
  by (simp add: logsRoute_def Let_def js_isNaN_def ok_def)

lemma logsRoute_NaN:
  assumes "js_Number (param ps ''limit'' ''50'') = NaN"
  shows "logsRoute i ps st = Response 200 (LogsBody (last_n 50 (logsOf st i)))"
  using assms slice_neg_limit[of 50 "logsOf st i"]
  by (simp add: logsRoute_def Let_def js_isNaN_def ok_def)

lemma logsRoute_getServerState:
  "logsRoute i ps (snd (getServerState j st)) = logsRoute i ps st"
  by (simp add: logsRoute_def logsOf_getServerState)

lemma perServer_logs:
  assumes "find (\<lambda>item. srv_id item = i) mockServers = Some server"
  shows "perServer now atob GET i (Some RLogs) ps b st
           = (logsRoute i ps (snd (getServerState i st)), snd (getServerState i st))"
  using assms by (simp add: perServer_def Let_def)

lemma perServer_command:
  assumes "find (\<lambda>item. srv_id item = i) mockServers = Some server"
  shows "perServer now atob POST i (Some RCommand) ps b st
           = commandRoute i b (snd (getServerState i st))"
  using assms by (simp add: perServer_def Let_def)



lemma state_overwrite:
  "(st::ServerState)\<lparr>status := s, lastAction := a, lastActionAt := t\<rparr>
     = \<lparr>status = s, lastAction = a, lastActionAt = t\<rparr>"
  by simp



lemma logsRoute_absent:
  "map_of ps ''limit'' = None \<Longrightarrow>
   logsRoute i ps st = Response 200 (LogsBody (last_n 50 (logsOf st i)))"
  using logsRoute_numeric[of ps 50 i st] by (simp add: param_def js_Number_50)

lemma logsRoute_clamped:
  "map_of ps ''limit'' = Some v \<Longrightarrow> js_Number v = Fin q \<Longrightarrow> q \<le> 1 \<Longrightarrow>
   logsRoute i ps st = Response 200 (LogsBody (last_n 1 (logsOf st i)))"
  using logsRoute_numeric[of ps q i st] by (simp add: param_def max_def)

lemma logsRoute_at_least_one:
  "map_of ps ''limit'' = Some v \<Longrightarrow> js_Number v = Fin q \<Longrightarrow> 1 \<le> q \<Longrightarrow>
   logsRoute i ps st = Response 200 (LogsBody (last_n (nat \<lfloor>q\<rfloor>) (logsOf st i)))"
  using logsRoute_numeric[of ps q i st] by (simp add: param_def max_def)

lemma logsRoute_not_a_number:
  "map_of ps ''limit'' = Some v \<Longrightarrow> js_Number v = NaN \<Longrightarrow>
   logsRoute i ps st = Response 200 (LogsBody (last_n 50 (logsOf st i)))"
  using logsRoute_NaN[of ps i st] by (simp add: param_def)

lemma js_Number_examples:
  "js_Number ''0'' = Fin 0"
  "js_Number ''-5'' = Fin (- 5)"
  "js_Number ''abc'' = NaN"
  "js_Number ''12px'' = NaN"
  "js_Number [] = Fin 0"
  "js_Number ''   '' = Fin 0"
  by code_simp+

lemma perServer_stats:
  assumes "find (\<lambda>item. srv_id item = i) mockServers = Some server"
  shows "perServer now atob GET i (Some RStats) ps b st
           = (statsRoute (fst (getServerState i st)) now, snd (getServerState i st))"
  using assms by (simp add: perServer_def Let_def)

lemma getServerState_idem:
  "fst (getServerState i (snd (getServerState i st))) = fst (getServerState i st)"
  by (simp add: getServerState_def update_conv' split: option.split)

text \<open>The status route answers with the registered server of the requested id, so
  the id in the body is the id asked for.\<close>

lemma getServerState_stored:
  "map_of (serverStates (snd (getServerState i st))) i = Some (fst (getServerState i st))"
  by (simp add: getServerState_def update_conv' split: option.split)

lemma stateRead_StateBody:
  "stateRead st (Response code (StateBody server i)) = map_of (serverStates st) i"
  by (simp add: stateRead_def)

lemma stateRead_setState:
  "stateRead (setState i s st) (Response code (StateBody server i)) = Some s"
  by (simp add: stateRead_def setState_def update_conv')

lemma stateRead_appendLog:
  "stateRead (appendLog j line st) r = stateRead st r"
  by (simp add: stateRead_def appendLog_fields split: response.split resp_body.split)

lemma mock_status_echoes_id:
  assumes "find (\<lambda>item. srv_id item = i) mockServers = Some server"
      and "req_target req = PerServer i (Some RStatus)"
  shows "fst (mockApiInterceptor now atob req st) = Response 200 (StateBody server i)
         \<and> stateRead (snd (mockApiInterceptor now atob req st))
               (fst (mockApiInterceptor now atob req st))
             = Some (fst (getServerState i (seedAll st)))
         \<and> srv_id server = i"
proof -
  have "srv_id server = i"
    using assms(1) by (auto simp add: find_Some_iff)
  moreover have "mockApiInterceptor now atob req st
           = (Response 200 (StateBody server i), snd (getServerState i (seedAll st)))"
    using assms by (simp add: mockApiInterceptor_def perServer_def Let_def ok_def)
  ultimately show ?thesis
    by (simp add: stateRead_StateBody getServerState_stored)
qed

text \<open>Every buffer the interceptor builds holds at most 200 lines: the bound holds
  for the empty store and every call of the interceptor keeps it.\<close>

lemma bounded_appendLog: "bounded st \<Longrightarrow> bounded (appendLog i l st)"
  unfolding bounded_def
proof
  fix j assume b: "\<forall>i. length (logsOf st i) \<le> 200"
  show "length (logsOf (appendLog i l st) j) \<le> 200"
  proof (cases "j = i")
    case True
    then show ?thesis by (simp add: logsOf_appendLog_same length_last_n)
  next
    case False
    with b show ?thesis by (simp add: logsOf_appendLog_other)
  qed
qed

lemma bounded_cong: "serverLogs st' = serverLogs st \<Longrightarrow> bounded st' = bounded st"
  by (simp add: bounded_def logsOf_def)

lemma bounded_seedLogs: "bounded st \<Longrightarrow> bounded (seedLogs st)"
  by (auto simp add: bounded_def logsOf_def seedLogs_def mockLogs_def update_conv')

lemma bounded_seedStates: "bounded (seedStates st) = bounded st"
  by (rule bounded_cong) (simp add: seedStates_def)

lemma bounded_seedFiles: "bounded (seedFiles st) = bounded st"
  by (rule bounded_cong) (simp add: seedFiles_def)

lemma bounded_seedAll: "bounded st \<Longrightarrow> bounded (seedAll st)"
  by (simp add: seedAll_def bounded_seedFiles bounded_seedLogs bounded_seedStates)

lemma bounded_setState: "bounded (setState i s st) = bounded st"
  by (rule bounded_cong) (simp add: setState_def)

lemma bounded_setFiles: "bounded (setFiles i fs st) = bounded st"
  by (rule bounded_cong) (simp add: setFiles_def)

lemma bounded_getServerState: "bounded (snd (getServerState i st)) = bounded st"
  by (rule bounded_cong) (simp add: getServerState_fields)

lemma bounded_lifecycleBlock:
  "bounded (snd p) \<Longrightarrow> bounded (snd (lifecycleBlock r s a line i action now p))"
  by (simp add: lifecycleBlock_def Let_def bounded_appendLog bounded_setState)

lemma bounded_perServer:
  assumes "bounded st"
  shows "bounded (snd (perServer now atob m i action ps b st))"
proof (cases "find (\<lambda>item. srv_id item = i) mockServers")
  case None
  with assms show ?thesis by (simp add: perServer_def)
next
  case (Some server)
  from assms have b1: "bounded (snd (getServerState i st))"
    by (simp add: bounded_getServerState)
  show ?thesis
    using b1
    by (simp add: perServer_def Some Let_def commandRoute_def contentPostRoute_def
        dirPostRoute_def renameRoute_def deleteRoute_def uploadRoute_def lifecycleRoutes_def
        bounded_appendLog bounded_setFiles bounded_lifecycleBlock split: option.split)
qed

lemma bounded_initial: "bounded initial_store"
  by (simp add: bounded_def logsOf_def initial_store_def)

lemma bounded_mockApiInterceptor:
  "bounded st \<Longrightarrow> bounded (snd (mockApiInterceptor now atob req st))"
  by (simp add: mockApiInterceptor_def Let_def bounded_seedAll bounded_perServer
      split: target.split)

text \<open>After any API request the store is seeded, and stays so.\<close>

lemma update_nonempty: "AList.update k v al \<noteq> []"
  by (cases al) simp_all

lemma seeded_appendLog: "seeded (appendLog i l st) = seeded st"
  by (simp add: seeded_def appendLog_fields)

lemma seeded_setState: "seeded (setState i s st) = seeded st"
  by (simp add: seeded_def setState_def)

lemma seeded_setFiles: "seeded st \<Longrightarrow> seeded (setFiles i fs st)"
  by (simp add: seeded_def setFiles_def update_nonempty)

lemma seeded_getServerState: "seeded (snd (getServerState i st)) = seeded st"
  by (simp add: seeded_def getServerState_fields)

lemma seeded_lifecycleBlock:
  "seeded (snd p) \<Longrightarrow> seeded (snd (lifecycleBlock r s a line i action now p))"
  by (simp add: lifecycleBlock_def Let_def seeded_appendLog seeded_setState)

lemma seeded_perServer:
  assumes "seeded st"
  shows "seeded (snd (perServer now atob m i action ps b st))"
proof (cases "find (\<lambda>item. srv_id item = i) mockServers")
  case None
  with assms show ?thesis by (simp add: perServer_def)
next
  case (Some server)
  from assms have b1: "seeded (snd (getServerState i st))"
    by (simp add: seeded_getServerState)
  show ?thesis
    using b1
    by (simp add: perServer_def Some Let_def commandRoute_def contentPostRoute_def
        dirPostRoute_def renameRoute_def deleteRoute_def uploadRoute_def lifecycleRoutes_def
        seeded_appendLog seeded_setFiles seeded_lifecycleBlock split: option.split)
qed

lemma seeded_after_request:
  "req_target req \<noteq> NonApi \<Longrightarrow> seeded (snd (mockApiInterceptor now atob req st))"
  by (simp add: mockApiInterceptor_def Let_def seeded_seedAll seeded_perServer
      split: target.split)

section \<open>The claims about the mock API\<close>

text \<open>
  C1. The log buffer keeps the newest 200 lines. For a registered server, on a store
  whose logs are seeded and whose buffer for the server holds at most 200 lines (both
  hold after every API request, see above), appending any
  sequence of lines leaves exactly the last 200 of the old lines followed by the new
  ones, in order; and a logs request with \<open>limit=1000\<close> on the resulting store
  answers with exactly these lines.
\<close>

theorem log_buffer_keeps_newest_200:
  assumes "find (\<lambda>item. srv_id item = i) mockServers = Some server"
      and "logsSeeded st"
      and "length (logsOf st i) \<le> 200"
      and "req_method req = GET"
      and "req_target req = PerServer i (Some RLogs)"
      and "map_of (searchParams req) ''limit'' = Some ''1000''"
  shows "logsOf (foldl (\<lambda>s l. appendLog i l s) st ls) i = last_n 200 (logsOf st i @ ls)
       \<and> fst (mockApiInterceptor now atob req (foldl (\<lambda>s l. appendLog i l s) st ls))
           = Response 200 (LogsBody (last_n 200 (logsOf st i @ ls)))"
proof -
  let ?st = "foldl (\<lambda>s l. appendLog i l s) st ls"
  have buf: "logsOf ?st i = last_n 200 (logsOf st i @ ls)"
    using assms(3) by (rule logsOf_foldl_appendLog)
  have "fst (mockApiInterceptor now atob req ?st) = logsRoute i (searchParams req) (seedAll ?st)"
    using assms(4,5) perServer_logs[OF assms(1)]
    by (simp add: mockApiInterceptor_def Let_def logsRoute_getServerState)
  also have "\<dots> = Response 200 (LogsBody (last_n 1000 (logsOf (seedAll ?st) i)))"
    using assms(6) logsRoute_numeric[of "searchParams req" 1000 i "seedAll ?st"]
    by (simp add: param_def js_Number_1000)
  also have "logsOf (seedAll ?st) i = logsOf ?st i"
    using assms(2) by (simp add: logsOf_seedAll appendLog_logsSeeded_fold)
  also have "last_n 1000 (logsOf ?st i) = logsOf ?st i"
    by (simp add: buf last_n_all length_last_n)
  finally show ?thesis using buf by simp
qed

theorem log_buffer_keeps_newest_200_witness:
  "logsSeeded (seedAll initial_store)
   \<and> length (logsOf (seedAll initial_store) ''nau-survival'') \<le> 200
   \<and> logsOf (foldl (\<lambda>s l. appendLog ''nau-survival'' l s) (seedAll initial_store)
         (replicate 201 ''x'')) ''nau-survival'' = replicate 200 ''x''
   \<and> fst (mockApiInterceptor ''2026-02-08T08:00:00.000Z'' (\<lambda>s. None)
         \<lparr>req_method = GET, req_target = PerServer ''nau-survival'' (Some RLogs),
          searchParams = [(''limit'', ''1000'')], req_body = None\<rparr>
         (foldl (\<lambda>s l. appendLog ''nau-survival'' l s) (seedAll initial_store)
            (replicate 201 ''x'')))
       = Response 200 (LogsBody (replicate 200 ''x''))"
proof -
  have s: "logsSeeded (seedAll initial_store)"
    using seeded_seedAll[of initial_store] by (simp add: seeded_def)
  have l: "length (logsOf (seedAll initial_store) ''nau-survival'') \<le> 200"
    by (simp add: seeded_logs_survival)
  have d: "last_n 200 (logsOf (seedAll initial_store) ''nau-survival'' @ replicate 201 ''x'')
             = replicate 200 ''x''"
    by (simp add: seeded_logs_survival last_n_def)
  show ?thesis
    using s l
      log_buffer_keeps_newest_200[OF find_survival s l, of
        "\<lparr>req_method = GET, req_target = PerServer ''nau-survival'' (Some RLogs),
          searchParams = [(''limit'', ''1000'')], req_body = None\<rparr>"
        "replicate 201 ''x''" "''2026-02-08T08:00:00.000Z''" "\<lambda>s. None"]
    by (simp add: d)
qed



text \<open>
  C3. The limit of the logs route. The claim says that every non-numeric limit input
  falls back to the default of 50. The empty string is such an input, yet
  \<open>Number('')\<close> is 0 and not \<open>NaN\<close>, so the route clamps it to 1: on the seeded
  store, \<open>limit=\<close> returns the last line only, while \<open>limit=abc\<close> returns the
  last 50 (here all four). The lemmas above give the parts of the claim that hold:
  the default of 50 for an absent limit, the clamp to 1, the fallback for every input
  that converts to \<open>NaN\<close>, and the last \<open>\<lfloor>limit\<rfloor>\<close> lines otherwise.
\<close>

theorem logs_limit_empty_string:
  "fst (mockApiInterceptor ''2026-02-08T08:00:00.000Z'' (\<lambda>s. None)
         \<lparr>req_method = GET, req_target = PerServer ''nau-survival'' (Some RLogs),
          searchParams = [(''limit'', [])], req_body = None\<rparr> initial_store)
     = Response 200
         (LogsBody [''[INFO] Done (4.21s)! For help, type '' @ [CHR 0x22] @ ''help'' @ [CHR 0x22]])
   \<and> fst (mockApiInterceptor ''2026-02-08T08:00:00.000Z'' (\<lambda>s. None)
         \<lparr>req_method = GET, req_target = PerServer ''nau-survival'' (Some RLogs),
          searchParams = [(''limit'', ''abc'')], req_body = None\<rparr> initial_store)
     = Response 200
         (LogsBody
            [''[INFO] Starting minecraft server version 1.20.4'',
             ''[INFO] Loading properties'',
             ''[INFO] Default game type: SURVIVAL'',
             ''[INFO] Done (4.21s)! For help, type '' @ [CHR 0x22] @ ''help'' @ [CHR 0x22]])"
proof -
  have run: "fst (mockApiInterceptor now atob
         \<lparr>req_method = GET, req_target = PerServer ''nau-survival'' (Some RLogs),
          searchParams = ps, req_body = None\<rparr> initial_store)
       = logsRoute ''nau-survival'' ps (seedAll initial_store)" for now atob ps
    using perServer_logs[OF find_survival]
    by (simp add: mockApiInterceptor_def Let_def logsRoute_getServerState)
  show ?thesis
    using logsRoute_clamped[of "[(''limit'', [])]" "[]" 0 "''nau-survival''" "seedAll initial_store"]
      logsRoute_not_a_number[of "[(''limit'', ''abc'')]" "''abc''" "''nau-survival''"
        "seedAll initial_store"]
    by (simp add: run js_Number_examples seeded_logs_survival last_n_def)
qed

lemma command_run:
  assumes "find (\<lambda>item. srv_id item = i) mockServers = Some server"
      and "req_method req = POST"
      and "req_target req = PerServer i (Some RCommand)"
  shows "mockApiInterceptor now atob req st
           = commandRoute i (req_body req) (snd (getServerState i (seedAll st)))"
  using assms(2,3) perServer_command[OF assms(1)]
  by (simp add: mockApiInterceptor_def Let_def)

lemma js_trim_say_hi: "js_trim ''  say hi  '' = ''say hi''"
  by (simp add: js_trim_def js_ws_def)

text \<open>
  C4, as stated. The claim says that the first appended line echoes the raw command.
  Both lines carry the trimmed text: for the command \<open>'  say hi  '\<close> the buffer of
  \<open>nau-events\<close> ends with \<open>[CMD] say hi\<close> and \<open>[INFO] Executed command: say hi\<close>,
  and the first of them is not \<open>[CMD] \<close> followed by the text as sent.
\<close>

theorem command_echo_is_trimmed:
  "logsOf (snd (mockApiInterceptor ''2026-02-08T08:00:00.000Z'' (\<lambda>s. None)
         \<lparr>req_method = POST, req_target = PerServer ''nau-events'' (Some RCommand),
          searchParams = [], req_body = Some [(''command'', ''  say hi  '')]\<rparr> initial_store))
        ''nau-events''
       = [''[INFO] Starting minecraft server version 1.20.4'',
          ''[INFO] Loading mini-games'',
          ''[INFO] Arena 2 ready'',
          ''[INFO] Done (4.66s)! For help, type '' @ [CHR 0x22] @ ''help'' @ [CHR 0x22],
          ''[CMD] say hi'',
          ''[INFO] Executed command: say hi'']
   \<and> ''[CMD] say hi'' \<noteq> ''[CMD] '' @ ''  say hi  ''
   \<and> ''[INFO] Executed command: say hi'' \<noteq> ''[INFO] Executed command: '' @ ''  say hi  ''"
  using command_run[OF find_events, where
      req = "\<lparr>req_method = POST, req_target = PerServer ''nau-events'' (Some RCommand),
        searchParams = [], req_body = Some [(''command'', ''  say hi  '')]\<rparr>"
      and now = "''2026-02-08T08:00:00.000Z''" and atob = "\<lambda>s. None" and st = initial_store]
  by (simp add: commandRoute_def Let_def bodyField_def param_def js_trim_say_hi
      logsOf_appendLog_same logsOf_appendLog_other logsOf_getServerState
      seeded_logs_events last_n_def)

text \<open>
  C4, amended. Command submission. For a registered server, \<open>POST command\<close> trims
  the command text and answers 200 \<open>{ok: true}\<close>; when the trimmed text is empty no
  buffer changes, otherwise the two lines \<open>[CMD] c\<close> and \<open>[INFO] Executed command: c\<close>
  (\<open>c\<close> the trimmed text in both) are appended in this order to that server's buffer
  and no other buffer changes.
\<close>

theorem command_appends_two_lines:
  assumes "find (\<lambda>item. srv_id item = i) mockServers = Some server"
      and "req_method req = POST"
      and "req_target req = PerServer i (Some RCommand)"
      and "command = js_trim (bodyField (req_body req) ''command'' [])"
  shows "case mockApiInterceptor now atob req st of
           (resp, st') \<Rightarrow>
             resp = Response 200 OkBody
             \<and> (if command = [] then serverLogs st' = serverLogs (seedAll st)
                else logsOf st' i =
                       last_n 200 (logsOf (seedAll st) i @
                         [''[CMD] '' @ command, ''[INFO] Executed command: '' @ command])
                     \<and> (\<forall>j. j \<noteq> i \<longrightarrow> logsOf st' j = logsOf (seedAll st) j))"
proof -
  let ?s1 = "snd (getServerState i (seedAll st))"
  have run: "mockApiInterceptor now atob req st = commandRoute i (req_body req) ?s1"
    using assms(2,3) perServer_command[OF assms(1)]
    by (simp add: mockApiInterceptor_def Let_def)
  show ?thesis
  proof (cases "command = []")
    case True
    then show ?thesis
      using assms(4) by (simp add: run commandRoute_def Let_def ok_def getServerState_fields)
  next
    case False
    have "last_n 200 (last_n 200 (logsOf (seedAll st) i @ [''[CMD] '' @ command])
             @ [''[INFO] Executed command: '' @ command])
          = last_n 200 (logsOf (seedAll st) i @
                         [''[CMD] '' @ command, ''[INFO] Executed command: '' @ command])"
      by (simp add: last_n_append_last_n)
    with False show ?thesis
      using assms(4)
      by (simp add: run commandRoute_def Let_def ok_def logsOf_appendLog_same
          logsOf_appendLog_other logsOf_getServerState)
  qed
qed

theorem command_appends_two_lines_witness:
  "js_trim ''  say hi  '' = ''say hi''
   \<and> fst (mockApiInterceptor ''2026-02-08T08:00:00.000Z'' (\<lambda>s. None)
         \<lparr>req_method = POST, req_target = PerServer ''nau-events'' (Some RCommand),
          searchParams = [], req_body = Some [(''command'', ''  say hi  '')]\<rparr> initial_store)
       = Response 200 OkBody
   \<and> logsOf (snd (mockApiInterceptor ''2026-02-08T08:00:00.000Z'' (\<lambda>s. None)
         \<lparr>req_method = POST, req_target = PerServer ''nau-events'' (Some RCommand),
          searchParams = [], req_body = Some [(''command'', ''  say hi  '')]\<rparr> initial_store))
        ''nau-events''
       = [''[INFO] Starting minecraft server version 1.20.4'',
          ''[INFO] Loading mini-games'',
          ''[INFO] Arena 2 ready'',
          ''[INFO] Done (4.66s)! For help, type '' @ [CHR 0x22] @ ''help'' @ [CHR 0x22],
          ''[CMD] say hi'',
          ''[INFO] Executed command: say hi'']
   \<and> js_trim ''   '' = []
   \<and> serverLogs (snd (mockApiInterceptor ''2026-02-08T08:00:00.000Z'' (\<lambda>s. None)
         \<lparr>req_method = POST, req_target = PerServer ''nau-events'' (Some RCommand),
          searchParams = [], req_body = Some [(''command'', ''   '')]\<rparr> initial_store))
       = serverLogs (seedAll initial_store)"
proof -
  have t1: "js_trim ''  say hi  '' = ''say hi''"
    by (simp add: js_trim_def js_ws_def)
  have t2: "js_trim ''   '' = []"
    by (simp add: js_trim_def js_ws_def)
  show ?thesis
    using
      command_appends_two_lines[OF find_events, where
        req = "\<lparr>req_method = POST, req_target = PerServer ''nau-events'' (Some RCommand),
          searchParams = [], req_body = Some [(''command'', ''  say hi  '')]\<rparr>"
        and command = "''say hi''" and now = "''2026-02-08T08:00:00.000Z''"
        and atob = "\<lambda>s. None" and st = initial_store]
      command_appends_two_lines[OF find_events, where
        req = "\<lparr>req_method = POST, req_target = PerServer ''nau-events'' (Some RCommand),
          searchParams = [], req_body = Some [(''command'', ''   '')]\<rparr>"
        and command = "[]" and now = "''2026-02-08T08:00:00.000Z''"
        and atob = "\<lambda>s. None" and st = initial_store]
    by (simp add: t1 t2 bodyField_def param_def seeded_logs_events last_n_def
        split: prod.splits)
qed

text \<open>
  C6. Unknown server. A request to a per-server route whose id is not among the
  registered servers is answered 404 with the body \<open>{error: 'Server not found.'}\<close>;
  a seeded store is left exactly as it was (on a fresh store only the seeding, which
  every API request performs first, has taken place).
\<close>

theorem unknown_server_404:
  assumes "find (\<lambda>item. srv_id item = i) mockServers = None"
      and "req_target req = PerServer i action"
  shows "mockApiInterceptor now atob req st
           = (Response 404 (ErrorBody ''Server not found.''),
              if seeded st then st else seedAll st)"
  using assms
  by (simp add: mockApiInterceptor_def perServer_def Let_def ok_def seedAll_seeded)

theorem unknown_server_404_witness:
  "find (\<lambda>item. srv_id item = ''nau-nowhere'') mockServers = None
   \<and> mockApiInterceptor ''2026-02-08T08:00:00.000Z'' (\<lambda>s. None)
        \<lparr>req_method = POST, req_target = PerServer ''nau-nowhere'' (Some RStart),
         searchParams = [], req_body = None\<rparr> (seedAll initial_store)
       = (Response 404 (ErrorBody ''Server not found.''), seedAll initial_store)"
  using unknown_server_404[OF find_unknown, where
      req = "\<lparr>req_method = POST, req_target = PerServer ''nau-nowhere'' (Some RStart),
        searchParams = [], req_body = None\<rparr>" and action = "Some RStart"
      and now = "''2026-02-08T08:00:00.000Z''" and atob = "\<lambda>s. None"
      and st = "seedAll initial_store"]
  by (simp add: find_unknown seeded_seedAll)

section \<open>Properties: the backend\<close>

lemma broadcastLog_fields:
  "b_serverLogs (broadcastLog i l st) = b_serverLogs st"
  "b_serverStates (broadcastLog i l st) = b_serverStates st"
  "servers (broadcastLog i l st) = servers st"
  "serversLoaded (broadcastLog i l st) = serversLoaded st"
  "serverSubscribers (broadcastLog i l st) = serverSubscribers st"
  "openClients (broadcastLog i l st) = openClients st"
  by (simp_all add: broadcastLog_def split: option.split)

lemma logsOf_backend_broadcastLog: "logsOf_backend (broadcastLog i l st) j = logsOf_backend st j"
  by (simp add: logsOf_backend_def broadcastLog_fields)

lemma logsOf_backend_appendLog_same:
  "logsOf_backend (appendLog_backend i l st) i = last_n 200 (logsOf_backend st i @ [l])"
  by (simp add: appendLog_backend_def Let_def logsOf_backend_broadcastLog)
    (simp add: logsOf_backend_def update_conv' last_n_def)

lemma logsOf_backend_appendLog_other:
  "j \<noteq> i \<Longrightarrow> logsOf_backend (appendLog_backend i l st) j = logsOf_backend st j"
  by (simp add: appendLog_backend_def Let_def logsOf_backend_broadcastLog)
    (simp add: logsOf_backend_def update_conv')

lemma appendLog_backend_fields:
  "b_serverStates (appendLog_backend i l st) = b_serverStates st"
  "servers (appendLog_backend i l st) = servers st"
  "serversLoaded (appendLog_backend i l st) = serversLoaded st"
  by (simp_all add: appendLog_backend_def Let_def broadcastLog_fields)

text \<open>The broadcast: one \<open>log\<close> payload for every open subscriber of the id, after
  what was sent before.\<close>

lemma appendLog_backend_outbox:
  "wsOutbox (appendLog_backend i l st) =
     wsOutbox st @
       map (\<lambda>client. (client, LogMsg l))
         (filter (\<lambda>client. client \<in> set (openClients st))
            (case map_of (serverSubscribers st) i of None \<Rightarrow> [] | Some subs \<Rightarrow> subs))"
  by (simp add: appendLog_backend_def Let_def broadcastLog_def split: option.split)

lemma logsOf_backend_foldl_appendLog:
  "length (logsOf_backend st i) \<le> 200 \<Longrightarrow>
   logsOf_backend (foldl (\<lambda>s l. appendLog_backend i l s) st ls) i
     = last_n 200 (logsOf_backend st i @ ls)"
proof (induction ls rule: rev_induct)
  case Nil
  then show ?case by (simp add: last_n_all)
next
  case (snoc l ls)
  then show ?case
    by (simp add: logsOf_backend_appendLog_same last_n_append_last_n
        del: append_assoc add: append_assoc[symmetric])
qed

lemma appendLog_backend_registry_fold:
  "servers (foldl (\<lambda>s l. appendLog_backend i l s) st ls) = servers st
   \<and> serversLoaded (foldl (\<lambda>s l. appendLog_backend i l s) st ls) = serversLoaded st"
  by (induction ls rule: rev_induct) (simp_all add: appendLog_backend_fields)

lemma getServerById_id: "getServerById st i = Some server \<Longrightarrow> cfg_id server = i"
  by (auto simp add: getServerById_def find_Some_iff)

lemma getServerState_backend_fields:
  "b_serverLogs (snd (getServerState_backend i st)) = b_serverLogs st"
  "servers (snd (getServerState_backend i st)) = servers st"
  "serversLoaded (snd (getServerState_backend i st)) = serversLoaded st"
  "wsOutbox (snd (getServerState_backend i st)) = wsOutbox st"
  by (simp_all add: getServerState_backend_def split: option.split)

lemma logsOf_backend_getServerState:
  "logsOf_backend (snd (getServerState_backend i st)) j = logsOf_backend st j"
  by (simp add: logsOf_backend_def getServerState_backend_fields)

lemma logsOf_backend_setState: "logsOf_backend (setState_backend i s st) j = logsOf_backend st j"
  by (simp add: logsOf_backend_def setState_backend_def)

lemma withServer_found:
  "serversLoaded st \<Longrightarrow> getServerById st i = Some server \<Longrightarrow> withServer i st k = k server"
  by (simp add: withServer_def)

text \<open>The backend's counterpart of C1.\<close>

lemma backend_log_buffer_keeps_newest_200:
  assumes "serversLoaded st" and "getServerById st i = Some server"
      and "length (logsOf_backend st i) \<le> 200"
      and "st' = foldl (\<lambda>s l. appendLog_backend i l s) st ls"
  shows "logsOf_backend st' i = last_n 200 (logsOf_backend st i @ ls)
       \<and> logsRoute_backend (Some ''1000'') i st'
           = ((200, BLogs (last_n 200 (logsOf_backend st i @ ls))), st')"
proof -
  have buf: "logsOf_backend st' i = last_n 200 (logsOf_backend st i @ ls)"
    using assms(3,4) by (simp add: logsOf_backend_foldl_appendLog)
  have reg: "serversLoaded st'" "getServerById st' i = Some server"
    using assms(1,2,4) appendLog_backend_registry_fold[of i st ls]
    by (simp_all add: getServerById_def)
  have "logsRoute_backend (Some ''1000'') i st'
          = ((200, BLogs (last_n 1000 (logsOf_backend st' i))), st')"
    using slice_neg_limit[of 1000 "logsOf_backend st' i"] getServerById_id[OF reg(2)]
    by (simp add: logsRoute_backend_def withServer_found[OF reg] Let_def js_Number_1000
        js_isNaN_def)
  moreover have "last_n 1000 (logsOf_backend st' i) = logsOf_backend st' i"
    by (simp add: buf last_n_all length_last_n)
  ultimately show ?thesis using buf by simp
qed

text \<open>The backend's logs route treats the empty limit as the mock does: \<open>Number('')\<close>
  is 0, which is clamped to 1.\<close>

lemma backend_logs_limit_empty_string:
  assumes "serversLoaded st" and "getServerById st i = Some server"
  shows "logsRoute_backend (Some []) i st = ((200, BLogs (last_n 1 (logsOf_backend st i))), st)"
  using slice_neg_limit[of 1 "logsOf_backend st i"] getServerById_id[OF assms(2)]
  by (simp add: logsRoute_backend_def withServer_found[OF assms] Let_def js_Number_examples
      js_isNaN_def)

text \<open>The backend's counterpart of C2.\<close>

lemma backend_lifecycle_action_effect:
  assumes "serversLoaded st" and "getServerById st i = Some server"
      and "(a, s, line) \<in> {(start, online, ''[INFO] Server started''),
             (stop, offline, ''[INFO] Server stopped''),
             (restart, online, ''[INFO] Server restarted'')}"
  shows "case lifecycleRoute_backend a now i st of
           (resp, st') \<Rightarrow>
             resp = (200, BState server
                            \<lparr>status = s, lastAction = Some a, lastActionAt = Some now\<rparr>)
             \<and> map_of (b_serverStates st') i
                 = Some \<lparr>status = s, lastAction = Some a, lastActionAt = Some now\<rparr>
             \<and> logsOf_backend st' i = last_n 200 (logsOf_backend st i @ [line])
             \<and> (\<forall>j. j \<noteq> i \<longrightarrow>
                   map_of (b_serverStates st') j = map_of (b_serverStates st) j
                   \<and> logsOf_backend st' j = logsOf_backend st j)"
proof -
  define new where "new = \<lparr>status = s, lastAction = Some a, lastActionAt = Some now\<rparr>"
  define st' where
    "st' = appendLog_backend i line
             (setState_backend i new (snd (getServerState_backend i st)))"
  have i: "cfg_id server = i" using assms(2) by (rule getServerById_id)
  have run: "lifecycleRoute_backend a now i st = ((200, BState server new), st')"
    using assms(3)
    by (auto simp add: lifecycleRoute_backend_def withServer_found[OF assms(1,2)] Let_def i
        state_overwrite new_def st'_def)
  have 1: "map_of (b_serverStates st') i = Some new"
    by (simp add: st'_def appendLog_backend_fields setState_backend_def update_conv')
  have 2: "logsOf_backend st' i = last_n 200 (logsOf_backend st i @ [line])"
    by (simp add: st'_def logsOf_backend_appendLog_same logsOf_backend_setState
        logsOf_backend_getServerState)
  have 3: "map_of (b_serverStates st') j = map_of (b_serverStates st) j
         \<and> logsOf_backend st' j = logsOf_backend st j" if "j \<noteq> i" for j
    using that
    by (simp add: st'_def appendLog_backend_fields logsOf_backend_appendLog_other
        logsOf_backend_setState logsOf_backend_getServerState)
      (simp add: setState_backend_def update_conv' getServerState_backend_def
        split: option.split)
  from 1 2 3 show ?thesis by (simp add: run new_def)
qed

text \<open>The backend's counterpart of C4.\<close>

lemma backend_command_appends_two_lines:
  assumes "serversLoaded st" and "getServerById st i = Some server"
      and "command = js_trim (case c of None \<Rightarrow> [] | Some v \<Rightarrow> v)"
  shows "case commandRoute_backend c i st of
           (resp, st') \<Rightarrow>
             resp = (200, BOk)
             \<and> (if command = [] then st' = st
                else logsOf_backend st' i =
                       last_n 200 (logsOf_backend st i @
                         [''[CMD] '' @ command, ''[INFO] Executed command: '' @ command])
                     \<and> (\<forall>j. j \<noteq> i \<longrightarrow> logsOf_backend st' j = logsOf_backend st j))"
proof -
  have i: "cfg_id server = i" using assms(2) by (rule getServerById_id)
  have "last_n 200 (last_n 200 (logsOf_backend st i @ [''[CMD] '' @ command])
             @ [''[INFO] Executed command: '' @ command])
          = last_n 200 (logsOf_backend st i @
                         [''[CMD] '' @ command, ''[INFO] Executed command: '' @ command])"
    by (simp add: last_n_append_last_n)
  then show ?thesis
    using assms(3)
    by (simp add: commandRoute_backend_def withServer_found[OF assms(1,2)] Let_def i
        logsOf_backend_appendLog_same logsOf_backend_appendLog_other)
qed

text \<open>The backend's counterpart of C6: with the registry loaded an unknown id is
  answered 404 by every route and the store stays as it is; while the registry is not
  loaded every route answers 500.\<close>

lemma backend_unknown_server_404:
  assumes "serversLoaded st" and "getServerById st i = None"
  shows "statusRoute_backend reachable i st = ((404, BError ''Server not found.''), st)"
    and "lifecycleRoute_backend a now i st = ((404, BError ''Server not found.''), st)"
    and "logsRoute_backend q i st = ((404, BError ''Server not found.''), st)"
    and "commandRoute_backend c i st = ((404, BError ''Server not found.''), st)"
    and "statsRoute_backend collected now i st = ((404, BError ''Server not found.''), st)"
  using assms
  by (simp_all add: statusRoute_backend_def lifecycleRoute_backend_def logsRoute_backend_def
      commandRoute_backend_def statsRoute_backend_def withServer_def)

lemma backend_registry_not_loaded_500:
  assumes "\<not> serversLoaded st"
  shows "statusRoute_backend reachable i st = ((500, BError ''No servers configured.''), st)"
    and "lifecycleRoute_backend a now i st = ((500, BError ''No servers configured.''), st)"
    and "logsRoute_backend q i st = ((500, BError ''No servers configured.''), st)"
    and "commandRoute_backend c i st = ((500, BError ''No servers configured.''), st)"
    and "statsRoute_backend collected now i st = ((500, BError ''No servers configured.''), st)"
  using assms
  by (simp_all add: statusRoute_backend_def lifecycleRoute_backend_def logsRoute_backend_def
      commandRoute_backend_def statsRoute_backend_def withServer_def)

text \<open>With a password configured the stats route does touch the lifecycle status: it
  becomes \<open>online\<close> when the collection succeeds and \<open>offline\<close> when it fails.\<close>

lemma backend_stats_with_password:
  assumes "serversLoaded st" and "getServerById st i = Some server"
      and "\<not> noRconPassword server"
  shows "case statsRoute_backend collected now i st of
           (resp, st') \<Rightarrow>
             fst resp = (case collected of None \<Rightarrow> 500 | Some _ \<Rightarrow> 200)
             \<and> map_of (b_serverStates st') i
                 = Some ((fst (getServerState_backend i st))
                          \<lparr>status := (case collected of None \<Rightarrow> offline | Some _ \<Rightarrow> online)\<rparr>)"
  using assms getServerById_id[OF assms(2)]
  by (simp add: statsRoute_backend_def withServer_found Let_def setState_backend_def
      update_conv' split: option.split)

section \<open>The claim about stats collection\<close>

text \<open>The mock interceptor knows no remote console (\<open>MockServer\<close> has no such
  field): its stats route is a fixture that answers 200 with the canned snapshot
  carrying the server's current status, and leaves every lifecycle state and every
  buffer as it was.\<close>

lemma mock_stats_canned_snapshot:
  assumes "find (\<lambda>item. srv_id item = j) mockServers = Some server"
      and "req_method req = GET"
      and "req_target req = PerServer j (Some RStats)"
  shows "case mockApiInterceptor now atob req st of
            (resp, st') \<Rightarrow>
              resp = Response 200
                (StatsBody
                   \<lparr>snap_status = status (fst (getServerState j (seedAll st))),
                    players = \<lparr>pl_online = 3, pl_max = 20,
                                pl_names = [''Alex'', ''Steve'', ''Nau'']\<rparr>,
                    tps = Some (99 / 5),
                    host = \<lparr>cpuPercent = 32, memUsedMB = 3456, memTotalMB = 8192,
                             memPercent = 42\<rparr>,
                    process = Some \<lparr>pid = 4312, proc_cpuPercent = 18, memMB = Some 2048\<rparr>,
                    world = \<lparr>world_path = ''world'', sizeBytes = 524288000\<rparr>,
                    timestamp = now\<rparr>)
              \<and> fst (getServerState j st') = fst (getServerState j (seedAll st))
              \<and> (\<forall>k. k \<noteq> j \<longrightarrow>
                    map_of (serverStates st') k = map_of (serverStates (seedAll st)) k)
              \<and> serverLogs st' = serverLogs (seedAll st)"
  using perServer_stats[OF assms(1)] assms(2,3)
  by (simp add: mockApiInterceptor_def Let_def statsRoute_def ok_def getServerState_idem
      getServerState_other getServerState_fields)

text \<open>
  C5. Stats collection without a remote-console password. On the backend's stats
  route, for a registered server whose configuration has no remote-console password
  (no \<open>rcon\<close> block, no password in it, or the empty one), the call answers 400 with
  the error \<open>RCON not configured.\<close> and no snapshot, whatever the collection would
  have produced, and leaves the whole store as it was: the lifecycle state of the
  server reads as before.
\<close>

theorem stats_without_rcon_password:
  assumes "serversLoaded st"
      and "getServerById st i = Some server"
      and "noRconPassword server"
  shows "statsRoute_backend collected now i st = ((400, BError ''RCON not configured.''), st)
       \<and> fst (getServerState_backend i (snd (statsRoute_backend collected now i st)))
           = fst (getServerState_backend i st)"
  using assms by (simp add: statsRoute_backend_def withServer_found)

theorem stats_without_rcon_password_witness:
  "serversLoaded
     \<lparr>servers = [\<lparr>cfg_id = ''nau-survival'', cfg_name = ''Nau Survival'',
                   cfg_path = ''/srv/minecraft/survival'', cfg_port = 25565,
                   cfg_description = None,
                   cfg_rcon = Some \<lparr>rc_host = None, rc_port = 25575, rc_password = Some []\<rparr>\<rparr>],
      serversLoaded = True,
      b_serverStates = [(''nau-survival'', \<lparr>status = online, lastAction = Some start,
           lastActionAt = Some ''2026-02-08T07:40:00.000Z''\<rparr>)],
      b_serverLogs = [], serverSubscribers = [], openClients = [], wsOutbox = []\<rparr>
   \<and> noRconPassword
       \<lparr>cfg_id = ''nau-survival'', cfg_name = ''Nau Survival'',
        cfg_path = ''/srv/minecraft/survival'', cfg_port = 25565,
        cfg_description = None,
        cfg_rcon = Some \<lparr>rc_host = None, rc_port = 25575, rc_password = Some []\<rparr>\<rparr>
   \<and> statsRoute_backend None ''2026-02-08T08:00:00.000Z'' ''nau-survival''
       \<lparr>servers = [\<lparr>cfg_id = ''nau-survival'', cfg_name = ''Nau Survival'',
                     cfg_path = ''/srv/minecraft/survival'', cfg_port = 25565,
                     cfg_description = None,
                     cfg_rcon = Some \<lparr>rc_host = None, rc_port = 25575, rc_password = Some []\<rparr>\<rparr>],
        serversLoaded = True,
        b_serverStates = [(''nau-survival'', \<lparr>status = online, lastAction = Some start,
           lastActionAt = Some ''2026-02-08T07:40:00.000Z''\<rparr>)],
        b_serverLogs = [], serverSubscribers = [], openClients = [], wsOutbox = []\<rparr>
     = ((400, BError ''RCON not configured.''),
        \<lparr>servers = [\<lparr>cfg_id = ''nau-survival'', cfg_name = ''Nau Survival'',
                      cfg_path = ''/srv/minecraft/survival'', cfg_port = 25565,
                      cfg_description = None,
                      cfg_rcon = Some \<lparr>rc_host = None, rc_port = 25575, rc_password = Some []\<rparr>\<rparr>],
         serversLoaded = True,
         b_serverStates = [(''nau-survival'', \<lparr>status = online, lastAction = Some start,
           lastActionAt = Some ''2026-02-08T07:40:00.000Z''\<rparr>)],
         b_serverLogs = [], serverSubscribers = [], openClients = [], wsOutbox = []\<rparr>)
   \<and> status (fst (getServerState_backend ''nau-survival''
         (snd (statsRoute_backend None ''2026-02-08T08:00:00.000Z'' ''nau-survival''
            \<lparr>servers = [\<lparr>cfg_id = ''nau-survival'', cfg_name = ''Nau Survival'',
                          cfg_path = ''/srv/minecraft/survival'', cfg_port = 25565,
                          cfg_description = None,
                          cfg_rcon = Some \<lparr>rc_host = None, rc_port = 25575,
                                           rc_password = Some []\<rparr>\<rparr>],
             serversLoaded = True,
             b_serverStates = [(''nau-survival'', \<lparr>status = online, lastAction = Some start,
                lastActionAt = Some ''2026-02-08T07:40:00.000Z''\<rparr>)],
             b_serverLogs = [], serverSubscribers = [], openClients = [],
             wsOutbox = []\<rparr>)))) = online"
  using stats_without_rcon_password[where
      st = "\<lparr>servers = [\<lparr>cfg_id = ''nau-survival'', cfg_name = ''Nau Survival'',
                     cfg_path = ''/srv/minecraft/survival'', cfg_port = 25565,
                     cfg_description = None,
                     cfg_rcon = Some \<lparr>rc_host = None, rc_port = 25575, rc_password = Some []\<rparr>\<rparr>],
        serversLoaded = True,
        b_serverStates = [(''nau-survival'', \<lparr>status = online, lastAction = Some start,
           lastActionAt = Some ''2026-02-08T07:40:00.000Z''\<rparr>)],
        b_serverLogs = [], serverSubscribers = [], openClients = [], wsOutbox = []\<rparr>"
      and i = "''nau-survival''"
      and server = "\<lparr>cfg_id = ''nau-survival'', cfg_name = ''Nau Survival'',
        cfg_path = ''/srv/minecraft/survival'', cfg_port = 25565,
        cfg_description = None,
        cfg_rcon = Some \<lparr>rc_host = None, rc_port = 25575, rc_password = Some []\<rparr>\<rparr>"
      and collected = None and now = "''2026-02-08T08:00:00.000Z''"]
  by (simp add: getServerById_def noRconPassword_def getServerState_backend_def)

section \<open>The claims about the client\<close>

lemma slice_max_length: "length (js_slice (IntVal (- maxDisplay)) xs) \<le> 5000"
  by (simp add: maxDisplay_def)

lemma slice_max_last_n: "js_slice (IntVal (- maxDisplay)) xs = last_n 5000 xs"
  by (simp add: maxDisplay_def last_n_def nat_diff_distrib' max_def)

text \<open>
  C7. Malformed live-channel messages. When the payload does not parse, or parses to a
  value whose \<open>type\<close> is neither \<open>'logs'\<close> nor \<open>'log'\<close>, \<open>onMessage\<close> returns
  normally and leaves the service, its published logs included, exactly as it was.
\<close>

theorem malformed_message_dropped:
  assumes "parse data = None
           \<or> (\<exists>v. parse data = Some v
                  \<and> get_prop v ''type'' \<noteq> JStr ''logs''
                  \<and> get_prop v ''type'' \<noteq> JStr ''log'')"
  shows "onMessage parse data c = Inr c"
  using assms by (auto simp add: onMessage_def)

theorem malformed_message_dropped_witness:
  "onMessage (\<lambda>d. if d = ''{}'' then Some (JObj []) else if d = ''42'' then Some (JNum 42)
                   else None) ''not json'' initial_console = Inr initial_console
   \<and> onMessage (\<lambda>d. if d = ''{}'' then Some (JObj []) else if d = ''42'' then Some (JNum 42)
                   else None) ''{}'' initial_console = Inr initial_console
   \<and> onMessage (\<lambda>d. if d = ''{}'' then Some (JObj []) else if d = ''42'' then Some (JNum 42)
                   else None) ''42'' initial_console = Inr initial_console"
  using
    malformed_message_dropped[where
      parse = "\<lambda>d. if d = ''{}'' then Some (JObj []) else if d = ''42'' then Some (JNum 42)
                   else None" and data = "''not json''" and c = initial_console]
    malformed_message_dropped[where
      parse = "\<lambda>d. if d = ''{}'' then Some (JObj []) else if d = ''42'' then Some (JNum 42)
                   else None" and data = "''{}''" and c = initial_console]
    malformed_message_dropped[where
      parse = "\<lambda>d. if d = ''{}'' then Some (JObj []) else if d = ''42'' then Some (JNum 42)
                   else None" and data = "''42''" and c = initial_console]
  by (simp add: get_prop_def)

text \<open>A message that does carry the type \<open>logs\<close> but no array (or string) in
  \<open>logs\<close> is outside C7: there \<open>onMessage\<close> raises.\<close>

lemma logs_message_without_array_raises:
  "parse data = Some (JObj [(''type'', JStr ''logs'')]) \<Longrightarrow>
   onMessage parse data c = Inl ''TypeError''"
  by (simp add: onMessage_def get_prop_def)

lemma fetchLogs_call:
  "serverId c \<noteq> [] \<Longrightarrow>
   fetchLogs c = c\<lparr>http_calls := http_calls c @ [GetLogs (serverId c) (limit c)]\<rparr>"
  by (simp add: fetchLogs_def)

lemma startPolling_timer:
  "pollingId (startPolling c) = Some (nextTimerId (fetchLogs c))
   \<and> (nextTimerId (fetchLogs c), 2000) \<in> set (intervals (startPolling c))"
  by (simp add: startPolling_def Let_def clearInterval_def split: option.split)

lemma startPolling_calls: "http_calls (startPolling c) = http_calls (fetchLogs c)"
  by (simp add: startPolling_def Let_def clearInterval_def split: option.split)

lemma startPolling_ids:
  "serverId (startPolling c) = serverId c \<and> limit (startPolling c) = limit c"
  by (simp add: startPolling_def Let_def clearInterval_def fetchLogs_def split: option.split)

text \<open>
  C8. Polling mode (\<open>environment.useMocks\<close>). With a current server, \<open>setLimit\<close>
  stores the limit and at once issues one logs request for that server with the new
  limit; \<open>connect\<close> to a server issues one and starts an interval timer of 2000 ms;
  every tick of a running timer issues a logs request for the current server and
  limit; and a successful answer replaces the published list by the returned lines
  (their last 5000, which is all of them up to that length), a failed one by the empty
  list.
\<close>

theorem polling_mode_refetch:
  assumes "serverId c \<noteq> []" and "sid \<noteq> []" and "(t, p) \<in> set (intervals c)"
  shows "setLimit True n c
           = c\<lparr>limit := n, http_calls := http_calls c @ [GetLogs (serverId c) n]\<rparr>
       \<and> http_calls (connect True sid n c) = http_calls c @ [GetLogs sid n]
       \<and> (\<exists>t'. pollingId (connect True sid n c) = Some t'
                \<and> (t', 2000) \<in> set (intervals (connect True sid n c)))
       \<and> onTick t c = c\<lparr>http_calls := http_calls c @ [GetLogs (serverId c) (limit c)]\<rparr>
       \<and> onLogsResponse (LogsOk logs) c
           = c\<lparr>logsSubject := PArr (map JStr (last_n 5000 logs))\<rparr>
       \<and> (if length logs \<le> 5000
           then logsSubject (onLogsResponse (LogsOk logs) c) = PArr (map JStr logs)
           else plength (logsSubject (onLogsResponse (LogsOk logs) c)) = 5000)
       \<and> logsSubject (onLogsResponse LogsFailed c) = PArr []"
proof -
  have 1: "setLimit True n c
             = c\<lparr>limit := n, http_calls := http_calls c @ [GetLogs (serverId c) n]\<rparr>"
    using assms(1) by (simp add: setLimit_def Let_def fetchLogs_def)
  have 2: "http_calls (connect True sid n c) = http_calls c @ [GetLogs sid n]"
    using assms(2) by (simp add: connect_def Let_def startPolling_calls fetchLogs_def)
  have 3: "\<exists>t'. pollingId (connect True sid n c) = Some t'
              \<and> (t', 2000) \<in> set (intervals (connect True sid n c))"
    using assms(2) startPolling_timer by (simp add: connect_def Let_def)
  have 4: "onTick t c = c\<lparr>http_calls := http_calls c @ [GetLogs (serverId c) (limit c)]\<rparr>"
    using assms(1,3) by (force simp add: onTick_def fetchLogs_def)
  have sl: "js_slice (IntVal (- maxDisplay)) (map JStr logs) = map JStr (last_n 5000 logs)"
    by (simp add: slice_max_last_n last_n_def drop_map del: js_slice.simps)
  have 5: "onLogsResponse (LogsOk logs) c
             = c\<lparr>logsSubject := PArr (map JStr (last_n 5000 logs))\<rparr>"
    by (simp add: onLogsResponse_def sl del: js_slice.simps)
  have 6: "if length logs \<le> 5000
           then logsSubject (onLogsResponse (LogsOk logs) c) = PArr (map JStr logs)
           else plength (logsSubject (onLogsResponse (LogsOk logs) c)) = 5000"
    by (simp add: 5 last_n_all length_last_n)
  have 7: "logsSubject (onLogsResponse LogsFailed c) = PArr []"
    by (simp add: onLogsResponse_def)
  from 1 2 3 4 5 6 7 show ?thesis by blast
qed

lemma connected_console:
  "connect True ''nau-survival'' 50 initial_console
     = \<lparr>socket = None, pollingId = Some 0, serverId = ''nau-survival'', limit = 50,
        logsSubject = PArr [], ws_sent = [], http_calls = [GetLogs ''nau-survival'' 50],
        intervals = [(0, 2000)], nextTimerId = 1\<rparr>"
  by (simp add: connect_def Let_def startPolling_def fetchLogs_def initial_console_def)

theorem polling_mode_refetch_witness:
  "serverId (connect True ''nau-survival'' 50 initial_console) \<noteq> []
   \<and> (0, 2000) \<in> set (intervals (connect True ''nau-survival'' 50 initial_console))
   \<and> http_calls (setLimit True 100 (connect True ''nau-survival'' 50 initial_console))
       = [GetLogs ''nau-survival'' 50, GetLogs ''nau-survival'' 100]
   \<and> http_calls (onTick 0 (connect True ''nau-survival'' 50 initial_console))
       = [GetLogs ''nau-survival'' 50, GetLogs ''nau-survival'' 50]
   \<and> logsSubject (onLogsResponse (LogsOk [''a'', ''b''])
         (connect True ''nau-survival'' 50 initial_console)) = PArr [JStr ''a'', JStr ''b'']"
  using polling_mode_refetch[where c = "connect True ''nau-survival'' 50 initial_console"
      and sid = "''nau-events''" and t = 0 and p = 2000 and n = 100
      and logs = "[''a'', ''b'']"]
  by (simp add: connected_console last_n_def)

lemma fetchLogs_logsSubject: "logsSubject (fetchLogs c) = logsSubject c"
  by (simp add: fetchLogs_def)

lemma clearInterval_logsSubject: "logsSubject (clearInterval t c) = logsSubject c"
  by (simp add: clearInterval_def)

lemma send_logsSubject: "logsSubject (send m c) = logsSubject c"
  by (simp add: send_def)

lemma startPolling_logsSubject: "logsSubject (startPolling c) = logsSubject c"
  by (simp add: startPolling_def Let_def fetchLogs_logsSubject clearInterval_logsSubject
      split: option.split)

lemma disconnect_logsSubject: "logsSubject (disconnect c) = logsSubject c"
  by (simp add: disconnect_def Let_def clearInterval_logsSubject split: option.split)

lemma connect_logsSubject: "logsSubject (connect u sid n c) = PArr []"
  by (simp add: connect_def Let_def disconnect_logsSubject startPolling_logsSubject
      send_logsSubject openSocket_def)

lemma onMessage_bound:
  assumes "onMessage parse data c = Inr c'" and "plength (logsSubject c) \<le> 5000"
  shows "plength (logsSubject c') \<le> 5000"
proof (cases "parse data")
  case None
  with assms show ?thesis by (simp add: onMessage_def)
next
  case (Some message)
  show ?thesis
  proof (cases "falsy message")
    case True
    with Some assms show ?thesis by (simp add: onMessage_def)
  next
    case False
    with Some assms show ?thesis
      by (auto simp add: onMessage_def slice_max_length simp del: js_slice.simps
          split: if_splits jsval.splits)
  qed
qed

lemma onLogsResponse_bound: "plength (logsSubject (onLogsResponse r c)) \<le> 5000"
  by (cases r) (simp_all add: onLogsResponse_def slice_max_length del: js_slice.simps)

lemma step_bound:
  "plength (logsSubject c) \<le> 5000 \<Longrightarrow> plength (logsSubject (step u parse c e)) \<le> 5000"
proof (cases e)
  case (Message data)
  assume "plength (logsSubject c) \<le> 5000"
  then show ?thesis
    using onMessage_bound[of parse data c]
    by (cases "onMessage parse data c") (simp_all add: Message)
next
  case (LogsResponse r)
  then show ?thesis by (simp add: onLogsResponse_bound)
qed (simp_all add: connect_logsSubject setLimit_def sendCommand_def Let_def
      fetchLogs_logsSubject send_logsSubject disconnect_logsSubject onOpen_def onClose_def
      onTick_def onCommandResponse_def split: option.split)

text \<open>The two publishing paths of \<open>onMessage\<close>: a snapshot replaces the list by the
  last 5000 of its lines, a single line is appended and the last 5000 entries kept.\<close>

lemma onMessage_snapshot:
  assumes "parse data = Some message" and "\<not> falsy message"
      and "get_prop message ''type'' = JStr ''logs''"
      and "get_prop message ''logs'' = JArr xs"
  shows "onMessage parse data c = Inr (c\<lparr>logsSubject := PArr (last_n 5000 xs)\<rparr>)"
  using assms by (simp add: onMessage_def slice_max_last_n del: js_slice.simps)

lemma onMessage_line:
  assumes "parse data = Some message" and "\<not> falsy message"
      and "get_prop message ''type'' = JStr ''log''"
  shows "onMessage parse data c
           = Inr (c\<lparr>logsSubject :=
                       PArr (last_n 5000 (spread (logsSubject c) @ [get_prop message ''line'']))\<rparr>)"
  using assms by (simp add: onMessage_def slice_max_last_n del: js_slice.simps)

lemma typed_not_falsy: "get_prop message ''type'' = JStr t \<Longrightarrow> \<not> falsy message"
  by (cases message) (simp_all add: get_prop_def)

lemma published_bound:
  "plength (logsSubject (foldl (step useMocks parse) initial_console events)) \<le> 5000"
proof (induction events rule: rev_induct)
  case Nil
  show ?case by (simp add: initial_console_def)
next
  case (snoc e events)
  then show ?case by (simp add: step_bound)
qed

text \<open>
  C9. The published list never exceeds 5000 entries, whatever sequence of method calls,
  socket messages, timer ticks and HTTP answers the service goes through from its
  initial state; and each of the three publishing paths truncates to the newest 5000
  before it publishes: a snapshot message publishes the last 5000 of its lines, a line
  message publishes the last 5000 of the published entries followed by the new line,
  and a poll response publishes the last 5000 of its lines.
\<close>

theorem published_at_most_5000:
  "plength (logsSubject (foldl (step useMocks parse) initial_console events)) \<le> 5000
   \<and> (parse ds = Some ms \<and> get_prop ms ''type'' = JStr ''logs''
        \<and> get_prop ms ''logs'' = JArr xs
      \<longrightarrow> step useMocks parse c (Message ds) = c\<lparr>logsSubject := PArr (last_n 5000 xs)\<rparr>)
   \<and> (parse dl = Some ml \<and> get_prop ml ''type'' = JStr ''log''
      \<longrightarrow> step useMocks parse c (Message dl)
            = c\<lparr>logsSubject :=
                  PArr (last_n 5000 (spread (logsSubject c) @ [get_prop ml ''line'']))\<rparr>)
   \<and> step useMocks parse c (LogsResponse (LogsOk logs))
       = c\<lparr>logsSubject := PArr (last_n 5000 (map JStr logs))\<rparr>"
proof (intro conjI impI)
  show "plength (logsSubject (foldl (step useMocks parse) initial_console events)) \<le> 5000"
    by (rule published_bound)
next
  assume h: "parse ds = Some ms \<and> get_prop ms ''type'' = JStr ''logs''
        \<and> get_prop ms ''logs'' = JArr xs"
  then have "\<not> falsy ms" using typed_not_falsy by blast
  with h show "step useMocks parse c (Message ds) = c\<lparr>logsSubject := PArr (last_n 5000 xs)\<rparr>"
    by (simp add: onMessage_snapshot)
next
  assume h: "parse dl = Some ml \<and> get_prop ml ''type'' = JStr ''log''"
  then have "\<not> falsy ml" using typed_not_falsy by blast
  with h show "step useMocks parse c (Message dl)
            = c\<lparr>logsSubject :=
                  PArr (last_n 5000 (spread (logsSubject c) @ [get_prop ml ''line'']))\<rparr>"
    by (simp add: onMessage_line)
next
  show "step useMocks parse c (LogsResponse (LogsOk logs))
       = c\<lparr>logsSubject := PArr (last_n 5000 (map JStr logs))\<rparr>"
    by (simp add: onLogsResponse_def slice_max_last_n del: js_slice.simps)
qed

theorem published_at_most_5000_witness:
  "demo_parse ''snapshot''
     = Some (JObj [(''type'', JStr ''logs''),
                   (''logs'', JArr (JStr ''oldest'' # replicate 5000 (JStr ''newer'')))])
   \<and> demo_parse ''line'' = Some (JObj [(''type'', JStr ''log''), (''line'', JStr ''newest'')])
   \<and> plength (logsSubject demo_console) = 5000
   \<and> step False demo_parse demo_console (Message ''snapshot'')
       = demo_console\<lparr>logsSubject := PArr (replicate 5000 (JStr ''newer''))\<rparr>
   \<and> step False demo_parse demo_console (Message ''line'')
       = demo_console\<lparr>logsSubject := PArr (replicate 4999 (JStr ''newer'') @ [JStr ''newest''])\<rparr>
   \<and> step False demo_parse demo_console
         (LogsResponse (LogsOk (''oldest'' # replicate 5000 ''newer'')))
       = demo_console\<lparr>logsSubject := PArr (replicate 5000 (JStr ''newer''))\<rparr>
   \<and> plength (logsSubject (foldl (step False demo_parse) initial_console
         [Message ''snapshot'', Message ''line''])) \<le> 5000"
proof -
  define ms where "ms = JObj [(''type'', JStr ''logs''),
                   (''logs'', JArr (JStr ''oldest'' # replicate 5000 (JStr ''newer'')))]"
  define ml where "ml = JObj [(''type'', JStr ''log''), (''line'', JStr ''newest'')]"
  have a: "last_n 5000 (x # replicate 5000 y) = replicate 5000 y" for x y :: 'a
    by (simp add: last_n_def del: replicate.simps)
  have b: "last_n 5000 (x # replicate 4999 y @ [z]) = replicate 4999 y @ [z]" for x y z :: 'a
    by (simp add: last_n_def del: replicate.simps)
  have p1: "demo_parse ''snapshot'' = Some ms"
    by (simp add: demo_parse_def ms_def del: replicate.simps)
  have p2: "demo_parse ''line'' = Some ml"
    by (simp add: demo_parse_def ml_def)
  have g1: "get_prop ms ''type'' = JStr ''logs''"
    by (simp add: get_prop_def ms_def del: replicate.simps)
  have g2: "get_prop ms ''logs'' = JArr (JStr ''oldest'' # replicate 5000 (JStr ''newer''))"
    by (simp add: get_prop_def ms_def del: replicate.simps)
  have g3: "get_prop ml ''type'' = JStr ''log''"
    by (simp add: get_prop_def ml_def)
  have g4: "get_prop ml ''line'' = JStr ''newest''"
    by (simp add: get_prop_def ml_def)
  have l: "logsSubject demo_console = PArr (JStr ''oldest'' # replicate 4999 (JStr ''newer''))"
    by (simp add: demo_console_def)
  have l2: "plength (logsSubject demo_console) = 5000"
    by (simp add: l del: replicate.simps)
  have m: "map JStr (''oldest'' # replicate 5000 ''newer'')
             = JStr ''oldest'' # replicate 5000 (JStr ''newer'')"
    by (simp del: replicate.simps)
  note t = published_at_most_5000[where useMocks = False and parse = demo_parse
        and events = "[Message ''snapshot'', Message ''line'']"
        and ds = "''snapshot''" and ms = ms
        and xs = "JStr ''oldest'' # replicate 5000 (JStr ''newer'')"
        and dl = "''line''" and ml = ml and c = demo_console
        and logs = "''oldest'' # replicate 5000 ''newer''"]
  from t have t1: "plength (logsSubject (foldl (step False demo_parse) initial_console
         [Message ''snapshot'', Message ''line''])) \<le> 5000"
    by (rule conjunct1)
  from t p1 g1 g2 have t2: "step False demo_parse demo_console (Message ''snapshot'')
       = demo_console\<lparr>logsSubject := PArr (replicate 5000 (JStr ''newer''))\<rparr>"
    unfolding a by blast
  from t p2 g3 have "step False demo_parse demo_console (Message ''line'')
       = demo_console\<lparr>logsSubject :=
            PArr (last_n 5000 (spread (logsSubject demo_console) @ [get_prop ml ''line'']))\<rparr>"
    by blast
  then have t3: "step False demo_parse demo_console (Message ''line'')
       = demo_console\<lparr>logsSubject := PArr (replicate 4999 (JStr ''newer'') @ [JStr ''newest''])\<rparr>"
    by (simp only: l g4 spread.simps append_Cons b)
  from t have "step False demo_parse demo_console
         (LogsResponse (LogsOk (''oldest'' # replicate 5000 ''newer'')))
       = demo_console\<lparr>logsSubject :=
           PArr (last_n 5000 (map JStr (''oldest'' # replicate 5000 ''newer'')))\<rparr>"
    by blast
  then have t4: "step False demo_parse demo_console
         (LogsResponse (LogsOk (''oldest'' # replicate 5000 ''newer'')))
       = demo_console\<lparr>logsSubject := PArr (replicate 5000 (JStr ''newer''))\<rparr>"
    by (simp only: m a)
  from p1 p2 l2 t1 t2 t3 t4 show ?thesis
    unfolding ms_def ml_def by (intro conjI)
qed

lemma forkJoin_all:
  "\<forall>x \<in> set xs. f x \<noteq> None \<Longrightarrow> forkJoin (map f xs) = Some (map (\<lambda>x. the (f x)) xs)"
  by (induction xs) auto

lemma foldl_update_keys:
  "fst ` set (foldl (\<lambda>m r. AList.update (srv_id (fst r)) (snd r) m) m0 rs)
     = fst ` set m0 \<union> (\<lambda>r. srv_id (fst r)) ` set rs"
  by (induction rs arbitrary: m0) (simp_all add: dom_update)

lemma foldl_update_distinct:
  "distinct (map fst m0) \<Longrightarrow>
   distinct (map fst (foldl (\<lambda>m r. AList.update (srv_id (fst r)) (snd r) m) m0 rs))"
  by (induction rs arbitrary: m0) (simp_all add: distinct_update)

lemma foldl_update_lookup_miss:
  "k \<notin> (\<lambda>r. srv_id (fst r)) ` set rs \<Longrightarrow>
   map_of (foldl (\<lambda>m r. AList.update (srv_id (fst r)) (snd r) m) m0 rs) k = map_of m0 k"
  by (induction rs arbitrary: m0) (simp_all add: update_conv')

lemma foldl_update_lookup:
  "distinct (map (\<lambda>r. srv_id (fst r)) rs) \<Longrightarrow> r \<in> set rs \<Longrightarrow>
   map_of (foldl (\<lambda>m r. AList.update (srv_id (fst r)) (snd r) m) m0 rs) (srv_id (fst r))
     = Some (snd r)"
proof (induction rs arbitrary: m0)
  case Nil
  then show ?case by simp
next
  case (Cons x rs)
  show ?case
  proof (cases "r = x")
    case True
    with Cons.prems(1) have "srv_id (fst r) \<notin> (\<lambda>r. srv_id (fst r)) ` set rs" by auto
    then have "map_of (foldl (\<lambda>m r. AList.update (srv_id (fst r)) (snd r) m)
                 (AList.update (srv_id (fst r)) (snd r) m0) rs) (srv_id (fst r))
               = map_of (AList.update (srv_id (fst r)) (snd r) m0) (srv_id (fst r))"
      by (rule foldl_update_lookup_miss)
    with True show ?thesis
      by (simp add: update_conv')
  next
    case False
    with Cons.prems have "distinct (map (\<lambda>r. srv_id (fst r)) rs)" "r \<in> set rs" by auto
    then show ?thesis by (simp add: Cons.IH)
  qed
qed

lemma caught_not_pending: "out \<noteq> Pending \<Longrightarrow> caught server out \<noteq> None"
  by (cases out) (simp_all add: caught_def)

lemma refresh_run:
  assumes "srvs \<noteq> []"
      and "\<forall>s \<in> set srvs. http s \<noteq> Pending"
  shows "refreshStatuses http srvs old
           = foldl (\<lambda>m r. AList.update (srv_id (fst r)) (snd r) m) []
               (map (\<lambda>s. the (caught s (http s))) srvs)"
proof -
  have "\<forall>s \<in> set srvs. caught s (http s) \<noteq> None"
    using assms(2) caught_not_pending by blast
  then have fj: "forkJoin (map (\<lambda>server. caught server (http server)) srvs)
               = Some (map (\<lambda>s. the (caught s (http s))) srvs)"
    by (rule forkJoin_all)
  have cp: "(\<lambda>nextStates (sv, s). AList.update (srv_id sv) s nextStates)
              = (\<lambda>m r. AList.update (srv_id (fst r)) (snd r) m)"
    by (simp add: fun_eq_iff)
  show ?thesis
    using assms(1) by (simp add: refreshStatuses_def fj cp)
qed

lemma caught_key:
  assumes "http s \<noteq> Pending"
      and "\<forall>sv st. http s = Succeeded sv st \<longrightarrow> srv_id sv = srv_id s"
  shows "srv_id (fst (the (caught s (http s)))) = srv_id s"
  using assms by (cases "http s") (simp_all add: caught_def)

lemma caught_value:
  "http s = Failed \<Longrightarrow> snd (the (caught s (http s))) = fallbackState"
  "http s = Succeeded sv st \<Longrightarrow> snd (the (caught s (http s))) = st"
  by (simp_all add: caught_def)

text \<open>
  C10. Status refresh. For a non-empty list of servers with distinct ids, when every
  status request ends (in an error or in a body that names the server asked for), the
  published map has exactly the servers' ids as keys, each once; a server whose
  request failed has the fallback state \<open>offline/null/null\<close>, and every other
  server has the state its own answer carried.
\<close>

theorem refresh_statuses_fallback:
  assumes "srvs \<noteq> []"
      and "distinct (map srv_id srvs)"
      and "\<forall>s \<in> set srvs. http s \<noteq> Pending"
      and "\<forall>s \<in> set srvs. \<forall>sv st. http s = Succeeded sv st \<longrightarrow> srv_id sv = srv_id s"
  shows "fst ` set (refreshStatuses http srvs old) = srv_id ` set srvs
       \<and> distinct (map fst (refreshStatuses http srvs old))
       \<and> (\<forall>s \<in> set srvs.
            (http s = Failed \<longrightarrow>
               map_of (refreshStatuses http srvs old) (srv_id s) = Some fallbackState)
            \<and> (\<forall>sv st. http s = Succeeded sv st \<longrightarrow>
                 map_of (refreshStatuses http srvs old) (srv_id s) = Some st))"
proof -
  define res where "res = map (\<lambda>s. the (caught s (http s))) srvs"
  define f where "f = (\<lambda>m (r :: MockServer \<times> ServerState). AList.update (srv_id (fst r)) (snd r) m)"
  have run: "refreshStatuses http srvs old = foldl f [] res"
    unfolding res_def f_def using assms(1,3) by (rule refresh_run)
  have key: "srv_id (fst (the (caught s (http s)))) = srv_id s" if "s \<in> set srvs" for s
    using that assms(3,4) by (intro caught_key) blast+
  have ids: "map (\<lambda>r. srv_id (fst r)) res = map srv_id srvs"
    unfolding res_def using key by (simp add: comp_def)
  have keys: "fst ` set (refreshStatuses http srvs old) = srv_id ` set srvs"
  proof -
    have "fst ` set (foldl f [] res) = (\<lambda>r. srv_id (fst r)) ` set res"
      unfolding f_def by (simp add: foldl_update_keys)
    also have "\<dots> = set (map (\<lambda>r. srv_id (fst r)) res)" by simp
    also have "\<dots> = srv_id ` set srvs" by (simp only: ids set_map)
    finally show ?thesis by (simp only: run)
  qed
  have dist: "distinct (map fst (refreshStatuses http srvs old))"
    unfolding run f_def by (rule foldl_update_distinct) simp
  have val: "map_of (refreshStatuses http srvs old) (srv_id s)
               = Some (snd (the (caught s (http s))))" if "s \<in> set srvs" for s
  proof -
    have m: "the (caught s (http s)) \<in> set res" using that by (simp add: res_def)
    have d: "distinct (map (\<lambda>r. srv_id (fst r)) res)"
      using assms(2) by (simp only: ids)
    have "map_of (foldl f [] res) (srv_id (fst (the (caught s (http s)))))
                       = Some (snd (the (caught s (http s))))"
      unfolding f_def using d m by (rule foldl_update_lookup)
    then show ?thesis by (simp only: run key[OF that])
  qed
  show ?thesis
  proof (intro conjI ballI impI allI)
    show "fst ` set (refreshStatuses http srvs old) = srv_id ` set srvs" by (rule keys)
    show "distinct (map fst (refreshStatuses http srvs old))" by (rule dist)
  next
    fix s assume "s \<in> set srvs" "http s = Failed"
    then show "map_of (refreshStatuses http srvs old) (srv_id s) = Some fallbackState"
      using val[of s] caught_value(1)[of http s] by simp
  next
    fix s sv st assume "s \<in> set srvs" "http s = Succeeded sv st"
    then show "map_of (refreshStatuses http srvs old) (srv_id s) = Some st"
      using val[of s] caught_value(2)[of http s sv st] by simp
  qed
qed

theorem refresh_statuses_fallback_witness:
  "demo_servers \<noteq> []
   \<and> distinct (map srv_id demo_servers)
   \<and> map_of (refreshStatuses demo_http demo_servers []) ''nau-survival'' = Some fallbackState
   \<and> map_of (refreshStatuses demo_http demo_servers []) ''nau-creative''
       = Some \<lparr>status = online, lastAction = Some start,
               lastActionAt = Some ''2026-02-08T07:40:00.000Z''\<rparr>
   \<and> fst ` set (refreshStatuses demo_http demo_servers []) = {''nau-survival'', ''nau-creative''}"
proof -
  have a: "demo_servers \<noteq> []" by (simp add: demo_servers_def)
  have b: "distinct (map srv_id demo_servers)" by (simp add: demo_servers_def)
  have c: "\<forall>s \<in> set demo_servers. demo_http s \<noteq> Pending"
    by (simp add: demo_servers_def demo_http_def)
  have d: "\<forall>s \<in> set demo_servers. \<forall>sv st. demo_http s = Succeeded sv st \<longrightarrow> srv_id sv = srv_id s"
    by (simp add: demo_servers_def demo_http_def)
  note r = refresh_statuses_fallback[OF a b c d, of "[]"]
  have k: "fst ` set (refreshStatuses demo_http demo_servers []) = {''nau-survival'', ''nau-creative''}"
    using r by (simp add: demo_servers_def)
  have s1: "\<lparr>srv_id = ''nau-survival'', srv_name = ''Nau Survival'', srv_path = ''/a'',
       srv_port = 25565, srv_description = None\<rparr> \<in> set demo_servers"
    by (simp add: demo_servers_def)
  have s2: "\<lparr>srv_id = ''nau-creative'', srv_name = ''Nau Creative'', srv_path = ''/b'',
       srv_port = 25566, srv_description = None\<rparr> \<in> set demo_servers"
    by (simp add: demo_servers_def)
  from r have v: "\<forall>s \<in> set demo_servers.
            (demo_http s = Failed \<longrightarrow>
               map_of (refreshStatuses demo_http demo_servers []) (srv_id s) = Some fallbackState)
            \<and> (\<forall>sv st. demo_http s = Succeeded sv st \<longrightarrow>
                 map_of (refreshStatuses demo_http demo_servers []) (srv_id s) = Some st)"
    by blast
  have v1: "map_of (refreshStatuses demo_http demo_servers []) ''nau-survival'' = Some fallbackState"
    using bspec[OF v s1] by (simp add: demo_http_def)
  have v2: "map_of (refreshStatuses demo_http demo_servers []) ''nau-creative''
       = Some \<lparr>status = online, lastAction = Some start,
               lastActionAt = Some ''2026-02-08T07:40:00.000Z''\<rparr>"
    using bspec[OF v s2] by (simp add: demo_http_def)
  from a b v1 v2 k show ?thesis by blast
qed

end
